theory Spec2Isabelle
  imports Complex_Main "HOL-Library.AList"
begin

section \<open>Strings\<close>

text \<open>
  The engine is Python: its \<open>str\<close> values are modelled as \<^typ>\<open>string\<close>, holding the
  UTF-8 bytes of the text. Equality, membership, concatenation, prefix, suffix and
  substring tests and the removal of an ASCII character commute with the UTF-8 encoding,
  so they are the same on bytes as on code points. The Korean column names of the source
  are given by their bytes; the comment of each constant lists its code points.
\<close>

definition ko_eopchemyeong :: string where
  \<comment> \<open>U+C5C5 U+CCB4 U+BA85\<close>
  "ko_eopchemyeong =
    [CHR 0xEC, CHR 0x97, CHR 0x85, CHR 0xEC, CHR 0xB2, CHR 0xB4, CHR 0xEB, CHR 0xAA, CHR 0x85]"

definition ko_modelmyeong :: string where
  \<comment> \<open>U+BAA8 U+B378 U+BA85\<close>
  "ko_modelmyeong =
    [CHR 0xEB, CHR 0xAA, CHR 0xA8, CHR 0xEB, CHR 0x8D, CHR 0xB8, CHR 0xEB, CHR 0xAA, CHR 0x85]"

definition ko_jepummyeong :: string where
  \<comment> \<open>U+C81C U+D488 U+BA85\<close>
  "ko_jepummyeong =
    [CHR 0xEC, CHR 0xA0, CHR 0x9C, CHR 0xED, CHR 0x92, CHR 0x88, CHR 0xEB, CHR 0xAA, CHR 0x85]"

definition ko_pummongmyeong :: string where
  \<comment> \<open>U+D488 U+BAA9 U+BA85\<close>
  "ko_pummongmyeong =
    [CHR 0xED, CHR 0x92, CHR 0x88, CHR 0xEB, CHR 0xAA, CHR 0xA9, CHR 0xEB, CHR 0xAA, CHR 0x85]"

definition ko_pummok :: string where
  \<comment> \<open>U+D488 U+BAA9\<close>
  "ko_pummok =
    [CHR 0xED, CHR 0x92, CHR 0x88, CHR 0xEB, CHR 0xAA, CHR 0xA9]"

definition ko_sangho :: string where
  \<comment> \<open>U+C0C1 U+D638\<close>
  "ko_sangho =
    [CHR 0xEC, CHR 0x83, CHR 0x81, CHR 0xED, CHR 0x98, CHR 0xB8]"

definition ko_sangho_beobinmyeong :: string where
  \<comment> \<open>U+C0C1 U+D638 U+002F U+BC95 U+C778 U+BA85\<close>
  "ko_sangho_beobinmyeong =
    [CHR 0xEC, CHR 0x83, CHR 0x81, CHR 0xED, CHR 0x98, CHR 0xB8, CHR 0x2F, CHR 0xEB, CHR 0xB2, CHR 0x95, CHR 0xEC, CHR 0x9D, CHR 0xB8, CHR 0xEB, CHR 0xAA, CHR 0x85]"

definition ko_saeopjamyeong :: string where
  \<comment> \<open>U+C0AC U+C5C5 U+C790 U+BA85\<close>
  "ko_saeopjamyeong =
    [CHR 0xEC, CHR 0x82, CHR 0xAC, CHR 0xEC, CHR 0x97, CHR 0x85, CHR 0xEC, CHR 0x9E, CHR 0x90, CHR 0xEB, CHR 0xAA, CHR 0x85]"

definition ko_saeopja_deungnok_beonho :: string where
  \<comment> \<open>U+C0AC U+C5C5 U+C790 U+B4F1 U+B85D U+BC88 U+D638\<close>
  "ko_saeopja_deungnok_beonho =
    [CHR 0xEC, CHR 0x82, CHR 0xAC, CHR 0xEC, CHR 0x97, CHR 0x85, CHR 0xEC, CHR 0x9E, CHR 0x90, CHR 0xEB, CHR 0x93, CHR 0xB1, CHR 0xEB, CHR 0xA1, CHR 0x9D, CHR 0xEB, CHR 0xB2, CHR 0x88, CHR 0xED, CHR 0x98, CHR 0xB8]"

definition ko_singo_beonho :: string where
  \<comment> \<open>U+C2E0 U+ACE0 U+BC88 U+D638\<close>
  "ko_singo_beonho =
    [CHR 0xEC, CHR 0x8B, CHR 0xA0, CHR 0xEA, CHR 0xB3, CHR 0xA0, CHR 0xEB, CHR 0xB2, CHR 0x88, CHR 0xED, CHR 0x98, CHR 0xB8]"

definition ko_seungin_beonho :: string where
  \<comment> \<open>U+C2B9 U+C778 U+BC88 U+D638\<close>
  "ko_seungin_beonho =
    [CHR 0xEC, CHR 0x8A, CHR 0xB9, CHR 0xEC, CHR 0x9D, CHR 0xB8, CHR 0xEB, CHR 0xB2, CHR 0x88, CHR 0xED, CHR 0x98, CHR 0xB8]"

definition ko_injeung_beonho :: string where
  \<comment> \<open>U+C778 U+C99D U+BC88 U+D638\<close>
  "ko_injeung_beonho =
    [CHR 0xEC, CHR 0x9D, CHR 0xB8, CHR 0xEC, CHR 0xA6, CHR 0x9D, CHR 0xEB, CHR 0xB2, CHR 0x88, CHR 0xED, CHR 0x98, CHR 0xB8]"

definition ko_injeung_ilja :: string where
  \<comment> \<open>U+C778 U+C99D U+C77C U+C790\<close>
  "ko_injeung_ilja =
    [CHR 0xEC, CHR 0x9D, CHR 0xB8, CHR 0xEC, CHR 0xA6, CHR 0x9D, CHR 0xEC, CHR 0x9D, CHR 0xBC, CHR 0xEC, CHR 0x9E, CHR 0x90]"

definition ko_injeung_byeongyeong_ilja :: string where
  \<comment> \<open>U+C778 U+C99D U+BCC0 U+ACBD U+C77C U+C790\<close>
  "ko_injeung_byeongyeong_ilja =
    [CHR 0xEC, CHR 0x9D, CHR 0xB8, CHR 0xEC, CHR 0xA6, CHR 0x9D, CHR 0xEB, CHR 0xB3, CHR 0x80, CHR 0xEA, CHR 0xB2, CHR 0xBD, CHR 0xEC, CHR 0x9D, CHR 0xBC, CHR 0xEC, CHR 0x9E, CHR 0x90]"

definition ko_seomyeong_ilja :: string where
  \<comment> \<open>U+C11C U+BA85 U+C77C U+C790\<close>
  "ko_seomyeong_ilja =
    [CHR 0xEC, CHR 0x84, CHR 0x9C, CHR 0xEB, CHR 0xAA, CHR 0x85, CHR 0xEC, CHR 0x9D, CHR 0xBC, CHR 0xEC, CHR 0x9E, CHR 0x90]"

definition ko_injeung_mallyo_ilja :: string where
  \<comment> \<open>U+C778 U+C99D U+B9CC U+B8CC U+C77C U+C790\<close>
  "ko_injeung_mallyo_ilja =
    [CHR 0xEC, CHR 0x9D, CHR 0xB8, CHR 0xEC, CHR 0xA6, CHR 0x9D, CHR 0xEB, CHR 0xA7, CHR 0x8C, CHR 0xEB, CHR 0xA3, CHR 0x8C, CHR 0xEC, CHR 0x9D, CHR 0xBC, CHR 0xEC, CHR 0x9E, CHR 0x90]"

definition ko_wallyoil :: string where
  \<comment> \<open>U+C644 U+B8CC U+C77C\<close>
  "ko_wallyoil =
    [CHR 0xEC, CHR 0x99, CHR 0x84, CHR 0xEB, CHR 0xA3, CHR 0x8C, CHR 0xEC, CHR 0x9D, CHR 0xBC]"

definition ko_wallyo_ilja :: string where
  \<comment> \<open>U+C644 U+B8CC U+C77C U+C790\<close>
  "ko_wallyo_ilja =
    [CHR 0xEC, CHR 0x99, CHR 0x84, CHR 0xEB, CHR 0xA3, CHR 0x8C, CHR 0xEC, CHR 0x9D, CHR 0xBC, CHR 0xEC, CHR 0x9E, CHR 0x90]"

definition ko_deungnok_ilja :: string where
  \<comment> \<open>U+B4F1 U+B85D U+C77C U+C790\<close>
  "ko_deungnok_ilja =
    [CHR 0xEB, CHR 0x93, CHR 0xB1, CHR 0xEB, CHR 0xA1, CHR 0x9D, CHR 0xEC, CHR 0x9D, CHR 0xBC, CHR 0xEC, CHR 0x9E, CHR 0x90]"

definition ko_deungnogil :: string where
  \<comment> \<open>U+B4F1 U+B85D U+C77C\<close>
  "ko_deungnogil =
    [CHR 0xEB, CHR 0x93, CHR 0xB1, CHR 0xEB, CHR 0xA1, CHR 0x9D, CHR 0xEC, CHR 0x9D, CHR 0xBC]"

definition ko_balgeubil :: string where
  \<comment> \<open>U+BC1C U+AE09 U+C77C\<close>
  "ko_balgeubil =
    [CHR 0xEB, CHR 0xB0, CHR 0x9C, CHR 0xEA, CHR 0xB8, CHR 0x89, CHR 0xEC, CHR 0x9D, CHR 0xBC]"

definition ko_mallyoil :: string where
  \<comment> \<open>U+B9CC U+B8CC U+C77C\<close>
  "ko_mallyoil =
    [CHR 0xEB, CHR 0xA7, CHR 0x8C, CHR 0xEB, CHR 0xA3, CHR 0x8C, CHR 0xEC, CHR 0x9D, CHR 0xBC]"

definition ko_seollibil :: string where
  \<comment> \<open>U+C124 U+B9BD U+C77C\<close>
  "ko_seollibil =
    [CHR 0xEC, CHR 0x84, CHR 0xA4, CHR 0xEB, CHR 0xA6, CHR 0xBD, CHR 0xEC, CHR 0x9D, CHR 0xBC]"

definition ko_seunginil :: string where
  \<comment> \<open>U+C2B9 U+C778 U+C77C\<close>
  "ko_seunginil =
    [CHR 0xEC, CHR 0x8A, CHR 0xB9, CHR 0xEC, CHR 0x9D, CHR 0xB8, CHR 0xEC, CHR 0x9D, CHR 0xBC]"

definition ko_singoil :: string where
  \<comment> \<open>U+C2E0 U+ACE0 U+C77C\<close>
  "ko_singoil =
    [CHR 0xEC, CHR 0x8B, CHR 0xA0, CHR 0xEA, CHR 0xB3, CHR 0xA0, CHR 0xEC, CHR 0x9D, CHR 0xBC]"

definition ko_rikoril :: string where
  \<comment> \<open>U+B9AC U+CF5C U+C77C\<close>
  "ko_rikoril =
    [CHR 0xEB, CHR 0xA6, CHR 0xAC, CHR 0xEC, CHR 0xBD, CHR 0x9C, CHR 0xEC, CHR 0x9D, CHR 0xBC]"

definition ko_saengseongil :: string where
  \<comment> \<open>U+C0DD U+C131 U+C77C\<close>
  "ko_saengseongil =
    [CHR 0xEC, CHR 0x83, CHR 0x9D, CHR 0xEC, CHR 0x84, CHR 0xB1, CHR 0xEC, CHR 0x9D, CHR 0xBC]"

definition ko_sujeongil :: string where
  \<comment> \<open>U+C218 U+C815 U+C77C\<close>
  "ko_sujeongil =
    [CHR 0xEC, CHR 0x88, CHR 0x98, CHR 0xEC, CHR 0xA0, CHR 0x95, CHR 0xEC, CHR 0x9D, CHR 0xBC]"

definition ko_singo_jeungmyeongseo_balgeubil :: string where
  \<comment> \<open>U+C2E0 U+ACE0 U+C99D U+BA85 U+C11C U+0020 U+BC1C U+AE09 U+C77C\<close>
  "ko_singo_jeungmyeongseo_balgeubil =
    [CHR 0xEC, CHR 0x8B, CHR 0xA0, CHR 0xEA, CHR 0xB3, CHR 0xA0, CHR 0xEC, CHR 0xA6, CHR 0x9D, CHR 0xEB, CHR 0xAA, CHR 0x85, CHR 0xEC, CHR 0x84, CHR 0x9C, CHR 0x20, CHR 0xEB, CHR 0xB0, CHR 0x9C, CHR 0xEA, CHR 0xB8, CHR 0x89, CHR 0xEC, CHR 0x9D, CHR 0xBC]"

definition ko_siheom_seongjeokseo_mallyoil :: string where
  \<comment> \<open>U+C2DC U+D5D8 U+C131 U+C801 U+C11C U+0020 U+B9CC U+B8CC U+C77C\<close>
  "ko_siheom_seongjeokseo_mallyoil =
    [CHR 0xEC, CHR 0x8B, CHR 0x9C, CHR 0xED, CHR 0x97, CHR 0x98, CHR 0xEC, CHR 0x84, CHR 0xB1, CHR 0xEC, CHR 0xA0, CHR 0x81, CHR 0xEC, CHR 0x84, CHR 0x9C, CHR 0x20, CHR 0xEB, CHR 0xA7, CHR 0x8C, CHR 0xEB, CHR 0xA3, CHR 0x8C, CHR 0xEC, CHR 0x9D, CHR 0xBC]"

definition ko_yutonggihan :: string where
  \<comment> \<open>U+C720 U+D1B5 U+AE30 U+D55C\<close>
  "ko_yutonggihan =
    [CHR 0xEC, CHR 0x9C, CHR 0xA0, CHR 0xED, CHR 0x86, CHR 0xB5, CHR 0xEA, CHR 0xB8, CHR 0xB0, CHR 0xED, CHR 0x95, CHR 0x9C]"

definition ko_suipja :: string where
  \<comment> \<open>U+C218 U+C785 U+C790\<close>
  "ko_suipja =
    [CHR 0xEC, CHR 0x88, CHR 0x98, CHR 0xEC, CHR 0x9E, CHR 0x85, CHR 0xEC, CHR 0x9E, CHR 0x90]"

definition ko_suip_eopche :: string where
  \<comment> \<open>U+C218 U+C785 U+C5C5 U+CCB4\<close>
  "ko_suip_eopche =
    [CHR 0xEC, CHR 0x88, CHR 0x98, CHR 0xEC, CHR 0x9E, CHR 0x85, CHR 0xEC, CHR 0x97, CHR 0x85, CHR 0xEC, CHR 0xB2, CHR 0xB4]"

definition ko_gijajae_myeongching :: string where
  \<comment> \<open>U+AE30 U+C790 U+C7AC U+BA85 U+CE6D\<close>
  "ko_gijajae_myeongching =
    [CHR 0xEA, CHR 0xB8, CHR 0xB0, CHR 0xEC, CHR 0x9E, CHR 0x90, CHR 0xEC, CHR 0x9E, CHR 0xAC, CHR 0xEB, CHR 0xAA, CHR 0x85, CHR 0xEC, CHR 0xB9, CHR 0xAD]"

lemmas ko_defs =
  ko_eopchemyeong_def
  ko_modelmyeong_def
  ko_jepummyeong_def
  ko_pummongmyeong_def
  ko_pummok_def
  ko_sangho_def
  ko_sangho_beobinmyeong_def
  ko_saeopjamyeong_def
  ko_saeopja_deungnok_beonho_def
  ko_singo_beonho_def
  ko_seungin_beonho_def
  ko_injeung_beonho_def
  ko_injeung_ilja_def
  ko_injeung_byeongyeong_ilja_def
  ko_seomyeong_ilja_def
  ko_injeung_mallyo_ilja_def
  ko_wallyoil_def
  ko_wallyo_ilja_def
  ko_deungnok_ilja_def
  ko_deungnogil_def
  ko_balgeubil_def
  ko_mallyoil_def
  ko_seollibil_def
  ko_seunginil_def
  ko_singoil_def
  ko_rikoril_def
  ko_saengseongil_def
  ko_sujeongil_def
  ko_singo_jeungmyeongseo_balgeubil_def
  ko_siheom_seongjeokseo_mallyoil_def
  ko_yutonggihan_def
  ko_suipja_def
  ko_suip_eopche_def
  ko_gijajae_myeongching_def

definition dq :: string where
  "dq = [CHR 0x22]"

definition sq :: string where
  "sq = [CHR 0x27]"

definition quoted :: "string \<Rightarrow> string" where
  \<comment> \<open>the f-string piece \<open>"{col}"\<close>: the name between double quotes\<close>
  "quoted col = dq @ col @ dq"

fun str_join :: "string \<Rightarrow> string list \<Rightarrow> string" where
  "str_join sep [] = []"
| "str_join sep [x] = x"
| "str_join sep (x # y # ys) = x @ sep @ str_join sep (y # ys)"

definition py_startswith :: "string \<Rightarrow> string \<Rightarrow> bool" where
  "py_startswith s p = (take (length p) s = p)"

definition py_endswith :: "string \<Rightarrow> string \<Rightarrow> bool" where
  "py_endswith s p = (length p \<le> length s \<and> drop (length s - length p) s = p)"

fun py_contains :: "string \<Rightarrow> string \<Rightarrow> bool" where
  \<comment> \<open>\<open>p in s\<close> on strings: \<open>p\<close> occurs in \<open>s\<close>\<close>
  "py_contains p [] = (p = [])"
| "py_contains p (c # s) = (py_startswith (c # s) p \<or> py_contains p s)"

definition py_remove :: "char \<Rightarrow> string \<Rightarrow> string" where
  \<comment> \<open>\<open>s.replace(c, '')\<close> for a one-character \<open>c\<close>; also SQL \<open>REPLACE(s, c, '')\<close>\<close>
  "py_remove c s = filter (\<lambda>x. x \<noteq> c) s"

definition lower_char :: "char \<Rightarrow> char" where
  "lower_char c =
     (if (65::nat) \<le> of_char c \<and> of_char c \<le> (90::nat)
      then char_of (of_char c + (32::nat)) else c)"

definition py_lower :: "string \<Rightarrow> string" where
  \<comment> \<open>\<open>s.lower()\<close> on ASCII letters; the bytes of other characters are left as they are\<close>
  "py_lower s = map lower_char s"

definition first_present :: "string list \<Rightarrow> string list \<Rightarrow> string option" where
  \<comment> \<open>\<open>next((f for f in candidates if f in available_fields), None)\<close>, and the
      \<open>for col in candidates: if col in available_fields: ...; break\<close> searches\<close>
  "first_present candidates available_fields = find (\<lambda>f. f \<in> set available_fields) candidates"

section \<open>The search predicate\<close>

text \<open>
  \<open>_get_search_pattern_and_operator\<close>: certificate and declaration number fields are
  compared with \<open>=\<close> against the keyword as typed; every other field is matched with
  \<open>LIKE\<close> against \<open>%keyword%\<close>.
\<close>

datatype operator = LIKE | EQ

definition render_operator :: "operator \<Rightarrow> string" where
  "render_operator op = (case op of LIKE \<Rightarrow> ''LIKE'' | EQ \<Rightarrow> ''='')"

definition exact_operator_fields :: "string list" where
  "exact_operator_fields =
     [''cert_no'', ''cert_num'', ''declare_no'', ko_singo_beonho, ko_seungin_beonho]"

definition get_search_pattern_and_operator :: "string \<Rightarrow> string \<Rightarrow> string \<times> operator" where
  "get_search_pattern_and_operator keyword field =
     (if field \<in> set exact_operator_fields then (keyword, EQ)
      else (''%'' @ keyword @ ''%'', LIKE))"

text \<open>
  The case-sensitivity configuration is read from a JSON file; it is a parameter here.
  \<open>_is_field_case_insensitive\<close> looks the field up in the explicit lists first.
\<close>

record case_config =
  case_insensitive_fields :: "string \<rightharpoonup> bool"
  case_sensitive_fields :: "string \<rightharpoonup> bool"
  default_case_insensitive :: bool

definition is_field_case_insensitive :: "case_config \<Rightarrow> string \<Rightarrow> bool" where
  "is_field_case_insensitive cfg field_name =
     (case case_insensitive_fields cfg field_name of
        Some b \<Rightarrow> b
      | None \<Rightarrow>
          (case case_sensitive_fields cfg field_name of
             Some b \<Rightarrow> \<not> b
           | None \<Rightarrow> default_case_insensitive cfg))"

text \<open>
  What \<open>_detect_json_structure\<close> reports; it reads the file, so its result is an input of
  the functions below, as is \<open>using_parquet\<close> (whether a Parquet or DuckDB file is read).
\<close>

datatype json_structure = Array | Object | NestedSafetykorea | NestedData | Unknown | Parquet

definition is_nested :: "json_structure \<Rightarrow> bool" where
  \<comment> \<open>\<open>structure in ['nested_safetykorea', 'nested_data']\<close>\<close>
  "is_nested structure = (structure = NestedSafetykorea \<or> structure = NestedData)"

definition where_table_alias :: "bool \<Rightarrow> json_structure \<Rightarrow> string" where
  "where_table_alias using_parquet structure =
     (if using_parquet then ''''
      else if is_nested structure then ''item.'' else '''')"

text \<open>
  The conditions of the predicate. The source writes each one as SQL text at once; here a
  condition is a value that \<open>render_cond\<close> turns into that text, so that the same value
  can also be given its meaning on a row (\<open>cond_holds\<close> below).
\<close>

datatype cond =
    StrippedEq string
  | Cmp bool string string operator

definition render_cond :: "cond \<Rightarrow> string" where
  "render_cond c =
     (case c of
        StrippedEq field \<Rightarrow>
          ''REPLACE(REPLACE(CAST('' @ quoted field @ '' AS VARCHAR), '' @ sq @ ''-'' @ sq
            @ '', '' @ sq @ sq @ ''), '' @ sq @ '' '' @ sq @ '', '' @ sq @ sq @ '') = ?''
      | Cmp lowered table_alias field op \<Rightarrow>
          (if lowered
           then ''LOWER(CAST('' @ table_alias @ quoted field @ '' AS VARCHAR)) ''
           else ''CAST('' @ table_alias @ quoted field @ '' AS VARCHAR) '')
          @ render_operator op @ '' ?'')"

datatype plan = ConstTrue | ConstFalse | AnyOf "cond list"

definition render_plan :: "plan \<Rightarrow> string" where
  "render_plan pl =
     (case pl of
        ConstTrue \<Rightarrow> ''1=1''
      | ConstFalse \<Rightarrow> ''1=0''
      | AnyOf conditions \<Rightarrow> str_join '' OR '' (map render_cond conditions))"

definition exact_match_fields :: "string list" where
  "exact_match_fields =
     [''business_number'', ko_saeopja_deungnok_beonho, ''ftc_business_number'']"

definition clean_keyword :: "string \<Rightarrow> string" where
  \<comment> \<open>\<open>keyword.replace('-', '').replace(' ', '')\<close>\<close>
  "clean_keyword keyword = py_remove CHR '' '' (py_remove CHR ''-'' keyword)"

definition business_field_aliases :: "string \<Rightarrow> string list" where
  "business_field_aliases search_field =
     [search_field]
     @ (if search_field = ''business_number'' then [''ftc_business_number''] else [])
     @ (if search_field = ''ftc_business_number'' then [''business_number''] else [])"

definition field_mappings :: "(string \<times> string list) list" where
  "field_mappings =
     [(''company_name'',
        [ko_eopchemyeong, ''maker_name'', ''entrprsNm'', ko_sangho_beobinmyeong,
         ko_saeopjamyeong]),
      (''model_name'', [ko_modelmyeong, ''model_name'']),
      (''product_name'', [ko_jepummyeong, ''product_name'', ''prductNm'', ko_pummongmyeong])]"

definition target_fields :: "string \<Rightarrow> string list" where
  \<comment> \<open>\<open>field_mappings.get(search_field, [search_field])\<close>\<close>
  "target_fields search_field =
     (case map_of field_mappings search_field of
        Some aliases \<Rightarrow> aliases
      | None \<Rightarrow> [search_field])"

definition existing_fields :: "string list \<Rightarrow> string \<Rightarrow> string list" where
  "existing_fields available_fields search_field =
     (let found = filter (\<lambda>field. field \<in> set available_fields) (target_fields search_field)
      in if found = []
         then (if search_field \<in> set available_fields then [search_field] else [])
         else found)"

definition where_condition ::
  "case_config \<Rightarrow> bool \<Rightarrow> string \<Rightarrow> string \<Rightarrow> string \<Rightarrow> cond \<times> string" where
  \<comment> \<open>one round of the loop over \<open>existing_fields\<close>: the condition and its parameter\<close>
  "where_condition cfg using_parquet table_alias keyword field =
     (let is_case_insensitive = is_field_case_insensitive cfg field;
          (search_pattern, op) = get_search_pattern_and_operator keyword field;
          search_pattern =
            (if is_case_insensitive \<and> op = LIKE then ''%'' @ py_lower keyword @ ''%''
             else search_pattern);
          condition =
            (if using_parquet
             then (if is_case_insensitive \<and> op = LIKE then Cmp True table_alias field op
                   else Cmp False table_alias field op)
             else (if is_case_insensitive \<and> op = LIKE then Cmp True table_alias field op
                   else Cmp False table_alias field op))
      in (condition, search_pattern))"

text \<open>
  \<open>_build_where_clause\<close>. \<open>available_fields\<close> is what \<open>_get_available_fields\<close> returned
  to it. \<open>where_plan\<close> is the predicate with its bound parameters; \<open>build_where_clause\<close>
  returns the text the source returns.
\<close>

definition where_plan ::
  "case_config \<Rightarrow> bool \<Rightarrow> json_structure \<Rightarrow> string list \<Rightarrow> string option \<Rightarrow> string
     \<Rightarrow> plan \<times> string list" where
  "where_plan cfg using_parquet structure available_fields keyword search_field =
     (case keyword of
        None \<Rightarrow> (ConstTrue, [])
      | Some kw \<Rightarrow>
          if kw = [] then (ConstTrue, [])
          else if search_field \<in> set exact_match_fields then
            (let cleaned_keyword = clean_keyword kw;
                 present = filter (\<lambda>field. field \<in> set available_fields)
                             (business_field_aliases search_field);
                 conditions = map StrippedEq present;
                 parameters = map (\<lambda>field. cleaned_keyword) present
             in if conditions \<noteq> [] then (AnyOf conditions, parameters)
                else (ConstFalse, []))
          else
            (let table_alias = where_table_alias using_parquet structure;
                 pairs = map (where_condition cfg using_parquet table_alias kw)
                           (existing_fields available_fields search_field);
                 conditions = map fst pairs;
                 parameters = map snd pairs
             in (if conditions \<noteq> [] then AnyOf conditions else ConstTrue, parameters)))"

definition build_where_clause ::
  "case_config \<Rightarrow> bool \<Rightarrow> json_structure \<Rightarrow> string list \<Rightarrow> string option \<Rightarrow> string
     \<Rightarrow> string \<times> string list" where
  "build_where_clause cfg using_parquet structure available_fields keyword search_field =
     (let (pl, parameters) =
            where_plan cfg using_parquet structure available_fields keyword search_field
      in (render_plan pl, parameters))"

definition add_required :: "string list \<Rightarrow> string list \<Rightarrow> string list" where
  \<comment> \<open>\<open>for col in cols: if col and col not in current: current.append(col)\<close>\<close>
  "add_required current cols =
     foldl (\<lambda>acc col. if col \<noteq> [] \<and> col \<notin> set acc then acc @ [col] else acc) current cols"

definition where_dynamic_required_fields ::
  "string list \<Rightarrow> string list \<Rightarrow> string option \<Rightarrow> string \<Rightarrow> string list" where
  \<comment> \<open>\<open>self.dynamic_required_fields\<close> after \<open>_build_where_clause\<close>: the searched columns are
      added on the path that reaches the end of the method\<close>
  "where_dynamic_required_fields current available_fields keyword search_field =
     (case keyword of
        None \<Rightarrow> current
      | Some kw \<Rightarrow>
          if kw = [] \<or> search_field \<in> set exact_match_fields then current
          else add_required current (existing_fields available_fields search_field))"

text \<open>
  The meaning of a predicate on a row. A row gives each column its value as \<open>VARCHAR\<close>
  (\<open>None\<close> is SQL \<open>NULL\<close>); a comparison with \<open>NULL\<close> is not true. The engine's \<open>LIKE\<close>
  and \<open>LOWER\<close> are parameters.
\<close>

type_synonym row = "string \<rightharpoonup> string"

record engine =
  sql_like :: "string \<Rightarrow> string \<Rightarrow> bool"
  sql_lower :: "string \<Rightarrow> string"

definition sql_strip :: "string \<Rightarrow> string" where
  \<comment> \<open>\<open>REPLACE(REPLACE(v, '-', ''), ' ', '')\<close>\<close>
  "sql_strip v = py_remove CHR '' '' (py_remove CHR ''-'' v)"

definition cond_holds :: "engine \<Rightarrow> row \<Rightarrow> cond \<Rightarrow> string \<Rightarrow> bool" where
  "cond_holds eng r c parameter =
     (case c of
        StrippedEq field \<Rightarrow>
          (case r field of None \<Rightarrow> False | Some v \<Rightarrow> sql_strip v = parameter)
      | Cmp lowered table_alias field op \<Rightarrow>
          (case r field of
             None \<Rightarrow> False
           | Some v \<Rightarrow>
               (let x = (if lowered then sql_lower eng v else v)
                in case op of EQ \<Rightarrow> x = parameter | LIKE \<Rightarrow> sql_like eng x parameter)))"

definition plan_holds :: "engine \<Rightarrow> row \<Rightarrow> plan \<times> string list \<Rightarrow> bool" where
  "plan_holds eng r pp =
     (case fst pp of
        ConstTrue \<Rightarrow> True
      | ConstFalse \<Rightarrow> False
      | AnyOf conditions \<Rightarrow>
          list_ex (\<lambda>(c, parameter). cond_holds eng r c parameter) (zip conditions (snd pp)))"

fun cond_column :: "cond \<Rightarrow> string" where
  "cond_column (StrippedEq field) = field"
| "cond_column (Cmp lowered table_alias field op) = field"

definition plan_columns :: "plan \<Rightarrow> string list" where
  \<comment> \<open>the physical columns a predicate reads\<close>
  "plan_columns pl = (case pl of AnyOf conditions \<Rightarrow> map cond_column conditions | _ \<Rightarrow> [])"

text \<open>
  The configuration \<open>load_case_sensitivity_config\<close> falls back to when the file cannot be
  read, and a reference engine for concrete rows: \<open>LOWER\<close> on ASCII letters, \<open>LIKE\<close> with
  the wildcards \<open>%\<close> and \<open>_\<close>.
\<close>

definition default_case_config :: case_config where
  "default_case_config =
     \<lparr> case_insensitive_fields =
         [ko_eopchemyeong \<mapsto> True, ko_jepummyeong \<mapsto> True,
          ''company_name'' \<mapsto> True, ''product_name'' \<mapsto> True],
       case_sensitive_fields =
         [ko_injeung_beonho \<mapsto> False, ko_modelmyeong \<mapsto> False,
          ''certification_no'' \<mapsto> False, ''model_name'' \<mapsto> False],
       default_case_insensitive = False \<rparr>"

fun like_match :: "string \<Rightarrow> string \<Rightarrow> bool" where
  "like_match [] s = (s = [])"
| "like_match (p # ps) s =
     (if p = CHR ''%''
      then like_match ps s \<or> (case s of [] \<Rightarrow> False | c # t \<Rightarrow> like_match (p # ps) t)
      else (case s of [] \<Rightarrow> False | c # t \<Rightarrow> (p = CHR ''_'' \<or> p = c) \<and> like_match ps t))"

definition reference_engine :: engine where
  "reference_engine =
     \<lparr> sql_like = (\<lambda>v pattern. like_match pattern v), sql_lower = py_lower \<rparr>"

section \<open>The filter predicate\<close>

text \<open>
  \<open>filters\<close> is a dictionary of optional entries. A filter value that is bound as a
  parameter is a string or a number.
\<close>

datatype pval = PStr string | PInt int

record date_range_filter =
  dr_start :: "pval option"
  dr_end :: "pval option"

record numeric_range_filter =
  nr_field :: "string option"
  nr_min :: "pval option"
  nr_max :: "pval option"

record filters =
  date_range :: "date_range_filter option"
  certification_type :: "string list option"
  company_type :: "string list option"
  exclude_keywords :: "string list option"
  numeric_range :: "numeric_range_filter option"

definition date_columns :: "string list" where
  "date_columns =
     [ko_injeung_ilja, ko_injeung_byeongyeong_ilja, ko_seomyeong_ilja, ko_injeung_mallyo_ilja,
      ko_wallyoil, ko_deungnok_ilja, ''date'', ''cert_date'']"

definition cert_columns :: "string list" where
  "cert_columns =
     [ko_injeung_beonho, ''certification_no'', ''license_no'', ''cert_no'', ''registration_no'']"

definition importer_columns :: "string list" where
  "importer_columns =
     [ko_suipja, ''importer'', ''import_company'', ''importerName'', ko_suip_eopche]"

definition product_columns :: "string list" where
  "product_columns =
     [ko_jepummyeong, ''product_name'', ''prductNm'', ko_pummongmyeong, ko_gijajae_myeongching]"

definition company_columns :: "string list" where
  "company_columns =
     [ko_eopchemyeong, ''company_name'', ''entrprsNm'', ko_sangho_beobinmyeong,
      ko_saeopjamyeong, ''maker_name'']"

definition cast_as :: "string \<Rightarrow> string \<Rightarrow> string \<Rightarrow> string" where
  \<comment> \<open>\<open>CAST({table_alias}"{col}" AS type)\<close>\<close>
  "cast_as table_alias col ty = ''CAST('' @ table_alias @ quoted col @ '' AS '' @ ty @ '')''"

definition date_range_part ::
  "string list \<Rightarrow> string \<Rightarrow> date_range_filter \<Rightarrow> string list \<times> pval list" where
  "date_range_part available_fields table_alias dr =
     (case first_present date_columns available_fields of
        None \<Rightarrow> ([], [])
      | Some col \<Rightarrow>
          ((case dr_start dr of
              Some v \<Rightarrow> [cast_as table_alias col ''DATE'' @ '' >= ?''] | None \<Rightarrow> [])
           @ (case dr_end dr of
                Some v \<Rightarrow> [cast_as table_alias col ''DATE'' @ '' <= ?''] | None \<Rightarrow> []),
           (case dr_start dr of Some v \<Rightarrow> [v] | None \<Rightarrow> [])
           @ (case dr_end dr of Some v \<Rightarrow> [v] | None \<Rightarrow> [])))"

definition certification_type_part ::
  "string list \<Rightarrow> string \<Rightarrow> string list \<Rightarrow> string list \<times> pval list" where
  "certification_type_part available_fields table_alias cert_types =
     (if cert_types = [] then ([], [])
      else
        (case first_present cert_columns available_fields of
           None \<Rightarrow> ([], [])
         | Some col \<Rightarrow>
             ([''UPPER('' @ cast_as table_alias col ''VARCHAR'' @ '') RLIKE ANY(ARRAY[''
                @ str_join '','' (map (\<lambda>cert_type. ''?'') cert_types) @ ''])''],
              map (\<lambda>cert_type. PStr (''.*'' @ cert_type @ ''.*'')) cert_types)))"

definition company_type_part ::
  "string list \<Rightarrow> string \<Rightarrow> string list \<Rightarrow> string list \<times> pval list" where
  "company_type_part available_fields table_alias company_types =
     (case first_present importer_columns available_fields of
        None \<Rightarrow> ([], [])
      | Some col \<Rightarrow>
          (let c = cast_as table_alias col ''VARCHAR'';
               ct_conditions =
                 (if ''manufacturer'' \<in> set company_types
                  then [''('' @ c @ '' IS NULL OR '' @ c @ '' = '' @ sq @ sq @ '')''] else [])
                 @ (if ''importer'' \<in> set company_types
                    then [''('' @ c @ '' IS NOT NULL AND '' @ c @ '' != '' @ sq @ sq @ '')'']
                    else [])
           in if ct_conditions \<noteq> []
              then ([''('' @ str_join '' OR '' ct_conditions @ '')''], [])
              else ([], [])))"

definition exclude_keyword_part ::
  "string option \<Rightarrow> string option \<Rightarrow> string \<Rightarrow> string \<Rightarrow> string list \<times> pval list" where
  \<comment> \<open>one round of \<open>for keyword in exclude_keywords\<close>\<close>
  "exclude_keyword_part product_column company_column table_alias keyword =
     (let exclude_conditions =
            (case product_column of
               Some col \<Rightarrow> [''LOWER('' @ cast_as table_alias col ''VARCHAR'' @ '') LIKE ?'']
             | None \<Rightarrow> [])
            @ (case company_column of
                 Some col \<Rightarrow> [''LOWER('' @ cast_as table_alias col ''VARCHAR'' @ '') LIKE ?'']
               | None \<Rightarrow> []);
          parameters =
            (case product_column of
               Some col \<Rightarrow> [PStr (''%'' @ py_lower keyword @ ''%'')] | None \<Rightarrow> [])
            @ (case company_column of
                 Some col \<Rightarrow> [PStr (''%'' @ py_lower keyword @ ''%'')] | None \<Rightarrow> [])
      in (if exclude_conditions \<noteq> []
          then [''NOT ('' @ str_join '' OR '' exclude_conditions @ '')''] else [],
          parameters))"

definition exclude_keywords_part ::
  "string list \<Rightarrow> string \<Rightarrow> string list \<Rightarrow> string list \<times> pval list" where
  "exclude_keywords_part available_fields table_alias keywords =
     (let parts = map (exclude_keyword_part (first_present product_columns available_fields)
                         (first_present company_columns available_fields) table_alias) keywords
      in (concat (map fst parts), concat (map snd parts)))"

definition numeric_range_part ::
  "string \<Rightarrow> numeric_range_filter \<Rightarrow> string list \<times> pval list" where
  "numeric_range_part table_alias nr =
     (let field = (case nr_field nr of Some f \<Rightarrow> f | None \<Rightarrow> ''price'')
      in ((case nr_min nr of
             Some v \<Rightarrow> [''TRY_CAST('' @ table_alias @ quoted field @ '' AS DOUBLE) >= ?'']
           | None \<Rightarrow> [])
          @ (case nr_max nr of
               Some v \<Rightarrow> [''TRY_CAST('' @ table_alias @ quoted field @ '' AS DOUBLE) <= ?'']
             | None \<Rightarrow> []),
          (case nr_min nr of Some v \<Rightarrow> [v] | None \<Rightarrow> [])
          @ (case nr_max nr of Some v \<Rightarrow> [v] | None \<Rightarrow> [])))"

definition optional_part :: "'a option \<Rightarrow> ('a \<Rightarrow> string list \<times> pval list) \<Rightarrow> string list \<times> pval list" where
  \<comment> \<open>\<open>if key in filters: ...\<close>\<close>
  "optional_part entry part = (case entry of None \<Rightarrow> ([], []) | Some v \<Rightarrow> part v)"

definition build_filter_conditions ::
  "string list \<Rightarrow> string \<Rightarrow> filters option \<Rightarrow> string \<times> pval list" where
  "build_filter_conditions available_fields table_alias fs =
     (case fs of
        None \<Rightarrow> (''1=1'', [])
      | Some f \<Rightarrow>
          (let parts =
                 [optional_part (date_range f) (date_range_part available_fields table_alias),
                  optional_part (certification_type f)
                    (certification_type_part available_fields table_alias),
                  optional_part (company_type f)
                    (company_type_part available_fields table_alias),
                  optional_part (exclude_keywords f)
                    (exclude_keywords_part available_fields table_alias),
                  optional_part (numeric_range f) (numeric_range_part table_alias)];
               conditions = concat (map fst parts);
               parameters = concat (map snd parts)
           in if conditions \<noteq> [] then (str_join '' AND '' conditions, parameters)
              else (''1=1'', [])))"

text \<open>
  What of a filter dictionary the text of the filter clause can depend on: which entries
  are there, how many certification types and excluded keywords, whether
  \<open>manufacturer\<close> and \<open>importer\<close> are among the company types, and the column named by the
  numeric range.
\<close>

definition filter_shape ::
  "filters \<Rightarrow> (bool \<times> bool) option \<times> nat option \<times> (bool \<times> bool) option \<times> nat option
     \<times> (string option \<times> bool \<times> bool) option" where
  "filter_shape f =
     (map_option (\<lambda>dr. (dr_start dr \<noteq> None, dr_end dr \<noteq> None)) (date_range f),
      map_option length (certification_type f),
      map_option (\<lambda>cts. (''manufacturer'' \<in> set cts, ''importer'' \<in> set cts)) (company_type f),
      map_option length (exclude_keywords f),
      map_option (\<lambda>nr. (nr_field nr, nr_min nr \<noteq> None, nr_max nr \<noteq> None)) (numeric_range f))"

definition injected_field :: string where
  \<comment> \<open>a \<open>numeric_range['field']\<close> that closes the quoted name and goes on as SQL\<close>
  "injected_field = ''x'' @ dq @ '' AS DOUBLE) >= 0 OR 1=1 --''"

section \<open>The order of the results\<close>



definition date_candidates :: "string list" where
  "date_candidates =
     [ko_wallyoil, ko_injeung_ilja, ko_injeung_byeongyeong_ilja, ko_seomyeong_ilja,
      ko_injeung_mallyo_ilja, ko_wallyo_ilja, ko_balgeubil, ko_mallyoil, ko_seollibil,
      ''cert_date'', ''sign_date'', ''cert_chg_date'',
      ''registration_date'', ''approval_date'', ''declaration_date'', ''recall_date'',
      ko_deungnogil, ko_seunginil, ko_singoil, ko_rikoril, ko_saengseongil, ko_sujeongil]
     @ [ko_singo_jeungmyeongseo_balgeubil, ko_siheom_seongjeokseo_mallyoil, ko_yutonggihan]"

definition product_candidates :: "string list" where
  "product_candidates =
     [ko_pummok, ko_jepummyeong, ''product_name'', ko_eopchemyeong, ''company_name'',
      ko_sangho, ko_gijajae_myeongching, ko_modelmyeong, ''model_name'']"


definition order_dynamic_required_fields ::
  "string list \<Rightarrow> bool \<Rightarrow> json_structure \<Rightarrow> string list \<Rightarrow> string list" where
  \<comment> \<open>\<open>self.dynamic_required_fields\<close> after the choice: the columns ordered by are added\<close>
  "order_dynamic_required_fields current using_parquet structure available_fields =
     (if using_parquet \<or> is_nested structure then current
      else add_required current
             ((case first_present date_candidates available_fields of
                 Some d \<Rightarrow> [d] | None \<Rightarrow> [])
              @ (case first_present product_candidates available_fields of
                   Some p \<Rightarrow> [p] | None \<Rightarrow> [])))"

section \<open>Pagination\<close>

record pagination =
  total_count :: int
  total_pages :: int
  current_page :: int
  items_per_page :: int
  has_next :: bool
  has_prev :: bool

definition effective_limit :: "int option \<Rightarrow> int option" where
  \<comment> \<open>\<open>None if limit is None or limit <= 0 else limit\<close>\<close>
  "effective_limit limit =
     (case limit of None \<Rightarrow> None | Some l \<Rightarrow> if l \<le> 0 then None else Some l)"

definition query_offset :: "int option \<Rightarrow> int \<Rightarrow> int" where
  \<comment> \<open>\<open>(page - 1) * effective_limit if effective_limit else 0\<close>\<close>
  "query_offset limit page =
     (case effective_limit limit of
        Some l \<Rightarrow> if l \<noteq> 0 then (page - 1) * l else 0
      | None \<Rightarrow> 0)"

definition paginate :: "int option \<Rightarrow> int \<Rightarrow> int \<Rightarrow> pagination" where
  \<comment> \<open>the pagination entry of the result of \<open>search_streaming\<close>; \<open>//\<close> is floor division\<close>
  "paginate limit page count =
     (case effective_limit limit of
        Some l \<Rightarrow>
          (let pages = (if l > 0 then (count + l - 1) div l else 1)
           in \<lparr> total_count = count, total_pages = pages, current_page = page,
                items_per_page = l, has_next = (page < pages), has_prev = (page > 1) \<rparr>)
      | None \<Rightarrow>
          \<lparr> total_count = count, total_pages = 1, current_page = page,
            items_per_page = count, has_next = False, has_prev = (page > 1) \<rparr>)"

section \<open>The processor and the size of its file\<close>

text \<open>
  The file system is a parameter: the paths that exist, each with the size of its file in
  bytes. A local path is taken as \<open>Path\<close> prints it, so \<open>str(Path(p))\<close> is \<open>p\<close>.
\<close>

datatype error = FileNotFoundError | RuntimeError | EngineError

type_synonym file_system = "string \<rightharpoonup> nat"

definition is_remote :: "string \<Rightarrow> bool" where
  \<comment> \<open>\<open>s.startswith('https://') or s.startswith('http://')\<close>\<close>
  "is_remote s = (py_startswith s ''https://'' \<or> py_startswith s ''http://'')"

record processor =
  file_path_str :: string
  is_url :: bool
  category :: "string option"
  subcategory :: "string option"
  required_fields :: "string list"
  dynamic_required_fields :: "string list"

definition processor_init ::
  "file_system \<Rightarrow> string \<Rightarrow> string option \<Rightarrow> string option \<Rightarrow> string list option
     \<Rightarrow> error + processor" where
  \<comment> \<open>\<open>DuckDBProcessor.__init__\<close>: a local file that does not exist is refused; the
      fields for an attached DuckDB file (table, alias and view names) are left out\<close>
  "processor_init fs file_path cat subcat required =
     (let p = \<lparr> file_path_str = file_path, is_url = is_remote file_path, category = cat,
                 subcategory = subcat,
                 required_fields = (case required of Some r \<Rightarrow> r | None \<Rightarrow> []),
                 dynamic_required_fields = [] \<rparr>
      in if \<not> is_remote file_path \<and> fs file_path = None then Inl FileNotFoundError
         else Inr p)"

definition get_file_size_mb :: "file_system \<Rightarrow> processor \<Rightarrow> error + rat" where
  \<comment> \<open>\<open>stat()\<close> raises when the file is not there\<close>
  "get_file_size_mb fs p =
     (if is_url p then Inr 100
      else (case fs (file_path_str p) of
              None \<Rightarrow> Inl FileNotFoundError
            | Some size_bytes \<Rightarrow> Inr (of_nat size_bytes / (1024 * 1024))))"

definition inspect_data_source :: "file_system \<Rightarrow> string \<Rightarrow> string \<times> bool \<times> bool \<times> rat" where
  \<comment> \<open>\<open>_inspect_data_source\<close> of the route layer: path, remote, tabular, size in MB\<close>
  "inspect_data_source fs data_file_str =
     (let remote = is_remote data_file_str;
          is_tabular = (py_endswith (py_lower data_file_str) ''.parquet''
                        \<or> py_endswith (py_lower data_file_str) ''.duckdb'')
      in if remote then (data_file_str, True, is_tabular, 100)
         else (data_file_str, False, is_tabular,
               (case fs data_file_str of
                  Some size_bytes \<Rightarrow> of_nat size_bytes / (1024 * 1024)
                | None \<Rightarrow> 0)))"

section \<open>The schema cache\<close>

fun split_on :: "char \<Rightarrow> string \<Rightarrow> string list" where
  \<comment> \<open>\<open>s.split(c)\<close>\<close>
  "split_on c [] = [[]]"
| "split_on c (x # xs) =
     (if x = c then [] # split_on c xs
      else (case split_on c xs of h # t \<Rightarrow> (x # h) # t | [] \<Rightarrow> [[x]]))"

definition path_name :: "string \<Rightarrow> string" where
  \<comment> \<open>\<open>Path(p).name\<close>: the last component, empty and \<open>.\<close> components dropped\<close>
  "path_name p =
     (case filter (\<lambda>s. s \<noteq> [] \<and> s \<noteq> ''.'') (split_on CHR ''/'' p) of
        [] \<Rightarrow> []
      | part # parts \<Rightarrow> last (part # parts))"

definition url_path :: "string \<Rightarrow> string" where
  \<comment> \<open>\<open>urlparse(u).path\<close> of an http(s) URL: after the host, up to \<open>?\<close> or \<open>#\<close>, without
      the \<open>;parameters\<close> of the last segment\<close>
  "url_path u =
     (let rest = (if py_startswith u ''https://'' then drop 8 u else drop 7 u);
          stop = (\<lambda>c. c = CHR ''/'' \<or> c = CHR ''?'' \<or> c = CHR ''#'');
          after_host = dropWhile (\<lambda>c. \<not> stop c) rest;
          path = takeWhile (\<lambda>c. c \<noteq> CHR ''?'' \<and> c \<noteq> CHR ''#'') after_host;
          segment = rev (takeWhile (\<lambda>c. c \<noteq> CHR ''/'') (rev path));
          directory = take (length path - length segment) path
      in directory @ takeWhile (\<lambda>c. c \<noteq> CHR '';'') segment)"

definition extract_file_name :: "string \<Rightarrow> string option" where
  "extract_file_name path_str =
     (if path_str = [] then None
      else if is_remote path_str then
        (if url_path path_str \<noteq> [] then Some (path_name (url_path path_str)) else None)
      else Some (path_name path_str))"

definition dynamic_targets :: "string list" where
  "dynamic_targets =
     [''3_efficiency_flattened.parquet'',
      ''3_efficiency_flattened_success.parquet'',
      ''3_efficiency_flattened_failed.parquet'',
      ''4_high_efficiency_flattened.parquet'',
      ''4_high_efficiency_flattened_success.parquet'',
      ''4_high_efficiency_flattened_failed.parquet'',
      ''5_standby_power_flattened.parquet'',
      ''5_standby_power_flattened_success.parquet'',
      ''5_standby_power_flattened_failed.parquet'']"

definition should_use_dynamic_schema :: "string \<Rightarrow> string option \<Rightarrow> bool" where
  \<comment> \<open>the URL patterns are the file names after a \<open>/\<close>\<close>
  "should_use_dynamic_schema cache_key file_name =
     ((case file_name of
         Some fn \<Rightarrow> fn \<noteq> [] \<and> fn \<in> set dynamic_targets
       | None \<Rightarrow> False)
      \<or> list_ex (\<lambda>target. py_contains (''/'' @ target) cache_key) dynamic_targets)"

record schema_state =
  cache_by_url :: "string \<rightharpoonup> string list"
  cache_by_filename :: "string \<rightharpoonup> string list"
  introspections :: nat

definition cache_schema :: "processor \<Rightarrow> string list \<Rightarrow> schema_state \<Rightarrow> schema_state" where
  \<comment> \<open>\<open>_cache_schema\<close>: both keys are written, unless the dataset has a volatile schema\<close>
  "cache_schema p columns s =
     (let cache_key = file_path_str p;
          file_name = extract_file_name cache_key
      in if should_use_dynamic_schema cache_key file_name then s
         else
           (let s1 = (if cache_key \<noteq> []
                      then s\<lparr>cache_by_url := (cache_by_url s)(cache_key \<mapsto> columns)\<rparr> else s)
            in (case file_name of
                  Some fn \<Rightarrow>
                    if fn \<noteq> []
                    then s1\<lparr>cache_by_filename := (cache_by_filename s1)(fn \<mapsto> columns)\<rparr>
                    else s1
                | None \<Rightarrow> s1)))"

definition dataset_patterns :: "(string \<times> string list) list" where
  "dataset_patterns =
     [(''safetykorea'', [''safetykorea'', ''safety_korea'']),
      (''wadiz'', [''wadiz'', ''makers'']),
      (''efficiency'', [''efficiency'', ''energy'']),
      (''high_efficiency'', [''high_efficiency'', ''high-efficiency'']),
      (''standby_power'', [''standby_power'', ''standby-power'']),
      (''approval'', [''approval'', ''approve'']),
      (''declare'', [''declare'', ''declaration'']),
      (''kwtc'', [''kwtc'']),
      (''recall'', [''recall'']),
      (''safetykoreachild'', [''safetykoreachild'', ''safety_korea_child'', ''child'']),
      (''rra_cert'', [''rra_cert'', ''rra-cert'']),
      (''rra_self_cert'', [''rra_self_cert'', ''rra-self-cert'']),
      (''safetykoreahome'', [''safetykoreahome'', ''safety_korea_home'', ''home''])]"

definition base_schema_file :: "(string \<times> string) list" where
  \<comment> \<open>the \<open>if matched_dataset == ...\<close> chain\<close>
  "base_schema_file =
     [(''wadiz'', ''2_wadiz_flattened.parquet''),
      (''safetykorea'', ''1_safetykorea_flattened.parquet''),
      (''efficiency'', ''3_efficiency_flattened.parquet''),
      (''high_efficiency'', ''4_high_efficiency_flattened.parquet''),
      (''standby_power'', ''5_standby_power_flattened.parquet''),
      (''approval'', ''6_approval_flattened.parquet''),
      (''declare'', ''7_declare_flattened.parquet''),
      (''kwtc'', ''8_kwtc_flattened.parquet''),
      (''recall'', ''9_recall_flattened.parquet''),
      (''safetykoreachild'', ''10_safetykoreachild_flattened.parquet''),
      (''rra_cert'', ''11_rra_cert_flattened.parquet''),
      (''rra_self_cert'', ''12_rra_self_cert_flattened.parquet''),
      (''safetykoreahome'', ''13_safetykoreahome_flattened.parquet'')]"

definition target_r2_patterns :: "string \<Rightarrow> string \<Rightarrow> string list" where
  "target_r2_patterns matched_dataset file_name_lower =
     (let is_enhanced = (py_contains ''enhanced'' file_name_lower
                         \<or> py_contains ''success'' file_name_lower
                         \<or> py_contains ''failed'' file_name_lower);
          is_success = py_contains ''success'' file_name_lower
      in (if is_enhanced
          then (if is_success then [matched_dataset @ ''_flattened_success.parquet'']
                else [matched_dataset @ ''_flattened_failed.parquet''])
          else [])
         @ (case map_of base_schema_file matched_dataset of
              Some target \<Rightarrow> [target] | None \<Rightarrow> []))"

definition try_duckdb_blob_schema_mapping ::
  "string \<Rightarrow> string option \<Rightarrow> schema_state \<Rightarrow> string list option \<times> schema_state" where
  "try_duckdb_blob_schema_mapping cache_key file_name s =
     (case file_name of
        None \<Rightarrow> (None, s)
      | Some fn \<Rightarrow>
          if cache_key = [] \<or> fn = [] then (None, s)
          else if \<not> (py_endswith cache_key ''.duckdb''
                      \<and> (py_contains ''blob.vercel-storage.com'' cache_key
                           \<or> py_contains ''blob'' (py_lower cache_key)))
          then (None, s)
          else
            (case find (\<lambda>(dataset, patterns).
                          list_ex (\<lambda>pattern. py_contains pattern (py_lower fn)) patterns)
                    dataset_patterns of
               None \<Rightarrow> (None, s)
             | Some (matched_dataset, patterns) \<Rightarrow>
                 (case find (\<lambda>target. cache_by_filename s target \<noteq> None)
                         (target_r2_patterns matched_dataset (py_lower fn)) of
                    None \<Rightarrow> (None, s)
                  | Some target \<Rightarrow>
                      (case cache_by_filename s target of
                         None \<Rightarrow> (None, s)
                       | Some schema \<Rightarrow>
                           (Some schema,
                            s\<lparr>cache_by_url := (cache_by_url s)(cache_key \<mapsto> schema),
                              cache_by_filename :=
                                (if cache_by_filename s fn = None
                                 then (cache_by_filename s)(fn \<mapsto> schema)
                                 else cache_by_filename s)\<rparr>)))))"

definition cached_schema :: "processor \<Rightarrow> schema_state \<Rightarrow> string list option \<times> schema_state" where
  \<comment> \<open>the first half of \<open>_get_available_fields\<close>: the caches are not consulted for a
      volatile-schema dataset\<close>
  "cached_schema p s =
     (let cache_key = file_path_str p;
          file_name = extract_file_name cache_key
      in if should_use_dynamic_schema cache_key file_name then (None, s)
         else
           (case cache_by_url s cache_key of
              Some cached \<Rightarrow> (Some cached, s)
            | None \<Rightarrow>
                (case (case file_name of
                         Some fn \<Rightarrow> if fn \<noteq> [] then cache_by_filename s fn else None
                       | None \<Rightarrow> None) of
                   Some cached \<Rightarrow> (Some cached, s)
                 | None \<Rightarrow> try_duckdb_blob_schema_mapping cache_key file_name s)))"

text \<open>
  Reading the columns of the source is the engine's work and a parameter here:
  \<open>resolve_tabular_path\<close> is the Parquet or DuckDB file \<open>_resolve_tabular_path\<close> finds for a
  local path, \<open>read_columns\<close> is what opening that relation and running
  \<open>SELECT * FROM ... LIMIT 1\<close> gives, the column names or the exception. A remote locator
  that is neither \<open>.parquet\<close> nor \<open>.duckdb\<close> is not read: it gets four fixed names. A
  local JSON file without a tabular sibling is probed through \<open>_build_base_query\<close>;
  \<open>read_json_columns\<close> stands for the outcome of that probe, and the calls the probe makes
  back into this method while it composes its projection are not unfolded. Creating the
  connection is taken to succeed.
\<close>

record world =
  resolve_tabular_path :: "string \<Rightarrow> string option"
  read_columns :: "string \<Rightarrow> error + string list"
  read_json_columns :: "string \<Rightarrow> error + string list"

definition probe :: "world \<Rightarrow> processor \<Rightarrow> (error + string list) option" where
  \<comment> \<open>which source is opened, if any, and what comes back\<close>
  "probe w p =
     (if is_url p then
        (if py_endswith (file_path_str p) ''.parquet'' \<or> py_endswith (file_path_str p) ''.duckdb''
         then Some (read_columns w (file_path_str p))
         else None)
      else
        (case resolve_tabular_path w (file_path_str p) of
           Some tabular_path \<Rightarrow> Some (read_columns w tabular_path)
         | None \<Rightarrow> Some (read_json_columns w (file_path_str p))))"

definition introspect :: "world \<Rightarrow> processor \<Rightarrow> schema_state \<Rightarrow> string list \<times> schema_state" where
  \<comment> \<open>the second half of \<open>_get_available_fields\<close>, inside \<open>try ... except Exception\<close>\<close>
  "introspect w p s =
     (case probe w p of
        None \<Rightarrow>
          ([''id'', ''name'', ''company'', ''date''],
           cache_schema p [''id'', ''name'', ''company'', ''date''] s)
      | Some outcome \<Rightarrow>
          (let s1 = s\<lparr>introspections := Suc (introspections s)\<rparr>
           in (case outcome of
                 Inl e \<Rightarrow> ([], s1)
               | Inr columns \<Rightarrow> (columns, cache_schema p columns s1))))"

definition get_available_fields ::
  "world \<Rightarrow> processor \<Rightarrow> schema_state \<Rightarrow> string list \<times> schema_state" where
  "get_available_fields w p s =
     (case cached_schema p s of
        (Some cached_fields, s1) \<Rightarrow> (cached_fields, s1)
      | (None, s1) \<Rightarrow> introspect w p s1)"

section \<open>The projection\<close>







definition is_dynamic_schema_target :: "processor \<Rightarrow> bool" where
  \<comment> \<open>the locator of the processor belongs to a volatile-schema dataset\<close>
  "is_dynamic_schema_target p =
     should_use_dynamic_schema (file_path_str p) (extract_file_name (file_path_str p))"

text \<open>Concrete processors, worlds and states for the examples.\<close>

definition local_processor :: "string \<Rightarrow> processor" where
  "local_processor path =
     \<lparr> file_path_str = path, is_url = False, category = Some ''dataA'',
       subcategory = Some ''kwtc'', required_fields = [], dynamic_required_fields = [] \<rparr>"

definition broken_world :: world where
  \<comment> \<open>every source is a Parquet file that the engine cannot read\<close>
  "broken_world =
     \<lparr> resolve_tabular_path = (\<lambda>path. Some path),
       read_columns = (\<lambda>path. Inl EngineError),
       read_json_columns = (\<lambda>path. Inl EngineError) \<rparr>"

definition sound_world :: world where
  \<comment> \<open>every source is a Parquet file with two columns\<close>
  "sound_world =
     \<lparr> resolve_tabular_path = (\<lambda>path. Some path),
       read_columns = (\<lambda>path. Inr [''company_name'', ''cert_date'']),
       read_json_columns = (\<lambda>path. Inl EngineError) \<rparr>"

definition empty_state :: schema_state where
  "empty_state = \<lparr> cache_by_url = Map.empty, cache_by_filename = Map.empty, introspections = 0 \<rparr>"

definition opens_tabular :: "world \<Rightarrow> processor \<Rightarrow> bool" where
  \<comment> \<open>the source that is opened is a Parquet or DuckDB relation: a remote \<open>.parquet\<close> or
      \<open>.duckdb\<close> locator, or a local path with a tabular file\<close>
  "opens_tabular w p =
     (if is_url p
      then py_endswith (file_path_str p) ''.parquet'' \<or> py_endswith (file_path_str p) ''.duckdb''
      else resolve_tabular_path w (file_path_str p) \<noteq> None)"

definition warm_state :: schema_state where
  \<comment> \<open>the schema of \<open>a.parquet\<close> is cached under the locator and under the file name\<close>
  "warm_state =
     \<lparr> cache_by_url = [''a.parquet'' \<mapsto> [''id'', ''maker'']],
       cache_by_filename = [''a.parquet'' \<mapsto> [''id'', ''maker'']],
       introspections = 0 \<rparr>"

section \<open>Fetching the rows\<close>

text \<open>
  The values of a fetched row, and a record: the dictionary \<open>search_streaming\<close> builds
  from a row, kept as an association list in the order of its keys.
\<close>

datatype val = VNull | VInt int | VStr string | VDict "(string \<times> val) list"

type_synonym py_dict = "(string \<times> val) list"

fun truthy :: "val \<Rightarrow> bool" where
  "truthy VNull = False"
| "truthy (VInt i) = (i \<noteq> 0)"
| "truthy (VStr s) = (s \<noteq> [])"
| "truthy (VDict d) = (d \<noteq> [])"

definition dict_zip :: "string list \<Rightarrow> val list \<Rightarrow> py_dict" where
  \<comment> \<open>\<open>dict(zip(column_names, row))\<close>: a repeated name keeps its place and takes the
      later value\<close>
  "dict_zip column_names row =
     foldl (\<lambda>d (k, v). AList.update k v d) [] (zip column_names row)"

definition to_record ::
  "bool \<Rightarrow> json_structure \<Rightarrow> string list \<Rightarrow> val list \<Rightarrow> py_dict option" where
  \<comment> \<open>the record of a row, \<open>None\<close> as in the source; for a nested item that is not a
      dictionary the source builds an error record, whose message is shortened here\<close>
  "to_record using_parquet structure column_names row =
     (if using_parquet then
        (if row \<noteq> [] then Some (dict_zip column_names row) else None)
      else if is_nested structure then
        (case row of
           [] \<Rightarrow> None
         | raw_record # rest \<Rightarrow>
             if truthy raw_record then
               (case raw_record of
                  VDict d \<Rightarrow> Some d
                | other \<Rightarrow>
                    Some [(''error'', VStr ''Unexpected record type''), (''content'', other)])
             else None)
      else
        (if row \<noteq> [] then Some (dict_zip column_names row) else None))"

record fetch_state =
  results :: "py_dict list"
  chunk_buffer :: "py_dict list"
  total_processed :: nat
  total_count_window :: "val option"
  sink_calls :: "(py_dict list \<times> nat) list"

record fetch_config =
  streaming_mode :: bool
  row_limit :: "int option"
  reads_parquet :: bool
  row_structure :: json_structure
  column_names :: "string list"
  batch_fetch_size :: nat

definition limit_reached :: "fetch_config \<Rightarrow> fetch_state \<Rightarrow> bool" where
  \<comment> \<open>\<open>effective_limit is not None and total_processed >= effective_limit\<close>\<close>
  "limit_reached cfg s =
     (case row_limit cfg of None \<Rightarrow> False | Some l \<Rightarrow> l \<le> int (total_processed s))"

definition take_record :: "fetch_config \<Rightarrow> py_dict \<Rightarrow> fetch_state \<Rightarrow> fetch_state" where
  \<comment> \<open>the body of \<open>if record:\<close>, up to the test of the limit\<close>
  "take_record cfg rec s =
     (let window = (case map_of rec ''total_count'' of
                      Some v \<Rightarrow> Some v | None \<Rightarrow> total_count_window s);
          rec1 = AList.delete ''total_count'' rec;
          s1 = s\<lparr>total_count_window := window, total_processed := Suc (total_processed s)\<rparr>
      in if streaming_mode cfg then s1\<lparr>chunk_buffer := chunk_buffer s1 @ [rec1]\<rparr>
         else s1\<lparr>results := results s1 @ [rec1]\<rparr>)"

fun process_batch :: "fetch_config \<Rightarrow> val list list \<Rightarrow> fetch_state \<Rightarrow> fetch_state" where
  \<comment> \<open>\<open>for row in batch\<close>, left by \<open>break\<close> when the limit is reached\<close>
  "process_batch cfg [] s = s"
| "process_batch cfg (row # rows) s =
     (case to_record (reads_parquet cfg) (row_structure cfg) (column_names cfg) row of
        None \<Rightarrow> process_batch cfg rows s
      | Some rec \<Rightarrow>
          if rec = [] then process_batch cfg rows s
          else
            (let s1 = take_record cfg rec s
             in if limit_reached cfg s1 then s1 else process_batch cfg rows s1))"

definition flush_chunk :: "fetch_config \<Rightarrow> fetch_state \<Rightarrow> fetch_state" where
  \<comment> \<open>\<open>chunk_callback(chunk_buffer.copy(), total_processed); chunk_buffer.clear()\<close>; the
      sink is modelled by the list of the calls it received, and is taken not to raise\<close>
  "flush_chunk cfg s =
     (if streaming_mode cfg \<and> chunk_buffer s \<noteq> []
      then s\<lparr>sink_calls := sink_calls s @ [(chunk_buffer s, total_processed s)],
             chunk_buffer := []\<rparr>
      else s)"

function fetch_loop :: "fetch_config \<Rightarrow> val list list \<Rightarrow> fetch_state \<Rightarrow> fetch_state" where
  \<comment> \<open>\<open>while True: batch = result.fetchmany(batch_fetch_size) ...\<close> over the rows the
      cursor still holds\<close>
  "fetch_loop cfg cursor s =
     (let batch = take (batch_fetch_size cfg) cursor
      in if batch = [] then s
         else
           (let s1 = flush_chunk cfg (process_batch cfg batch s)
            in if limit_reached cfg s1 then s1
               else fetch_loop cfg (drop (batch_fetch_size cfg) cursor) s1))"
  by pat_completeness auto
termination
  by (relation "measure (\<lambda>(cfg, cursor, s). length cursor)") auto

record search_outcome =
  out_results :: "py_dict list"
  out_total_count :: val
  out_processed_records :: nat
  out_sink_calls :: "(py_dict list \<times> nat) list"

definition execute_query ::
  "bool \<Rightarrow> bool \<Rightarrow> nat \<Rightarrow> int option \<Rightarrow> bool \<Rightarrow> json_structure \<Rightarrow> string list
     \<Rightarrow> val list list \<Rightarrow> search_outcome" where
  \<comment> \<open>\<open>_execute_query\<close> from the executed statement on; \<open>cursor\<close> holds the rows the engine
      returns for the compiled query, \<open>has_callback\<close> is \<open>chunk_callback is not None\<close>\<close>
  "execute_query collect_results has_callback chunk_size limit using_parquet structure
     names cursor =
     (let streaming = (\<not> collect_results \<and> has_callback);
          cfg = \<lparr> streaming_mode = streaming, row_limit = effective_limit limit,
                  reads_parquet = using_parquet,
                  row_structure = (if using_parquet then Parquet else structure),
                  column_names = names,
                  batch_fetch_size = (if streaming then chunk_size else 1000) \<rparr>;
          s0 = \<lparr> results = [], chunk_buffer = [], total_processed = 0,
                 total_count_window = None, sink_calls = [] \<rparr>;
          s = flush_chunk cfg (fetch_loop cfg cursor s0);
          count = (if results s \<noteq> []
                   then (case total_count_window s of
                           Some v \<Rightarrow> v | None \<Rightarrow> VInt (int (total_processed s)))
                   else VInt 0)
      in \<lparr> out_results = (if \<not> streaming then results s else []),
           out_total_count = count,
           out_processed_records = total_processed s,
           out_sink_calls = sink_calls s \<rparr>)"

definition two_rows :: "val list list" where
  \<comment> \<open>what a query with two matching rows returns: each row ends with the window count\<close>
  "two_rows = [[VStr ''Acme'', VInt 2], [VStr ''Zeta'', VInt 2]]"

section \<open>Properties of the search predicate\<close>

lemma cond_column_where_condition:
  "cond_column (fst (where_condition cfg up ta kw f)) = f"
  by (simp add: where_condition_def Let_def split: prod.splits)

lemma logical_not_exact:
  "sf \<in> fst ` set field_mappings \<Longrightarrow> sf \<notin> set exact_match_fields"
  by (auto simp: field_mappings_def exact_match_fields_def ko_defs)

lemma operator_not_exact:
  "f \<in> set exact_operator_fields \<Longrightarrow> f \<notin> set exact_match_fields"
  by (auto simp: exact_operator_fields_def exact_match_fields_def ko_defs)

lemma operator_target:
  "f \<in> set exact_operator_fields \<Longrightarrow> target_fields f = [f]"
  by (auto simp: exact_operator_fields_def target_fields_def field_mappings_def ko_defs)

lemma existing_fields_subset: "set (existing_fields avail sf) \<subseteq> set avail"
  by (auto simp: existing_fields_def Let_def)

lemma where_plan_columns:
  assumes "kw \<noteq> []" and "sf \<notin> set exact_match_fields"
  shows "plan_columns (fst (where_plan cfg up st avail (Some kw) sf)) = existing_fields avail sf"
  using assms
  by (simp add: where_plan_def Let_def plan_columns_def comp_def map_idI
      cond_column_where_condition)

lemma stripped_eq_holds:
  "list_ex (\<lambda>(c, parameter). cond_holds eng r c parameter)
     (zip (map StrippedEq fs) (map (\<lambda>field. p) fs))
   = (\<exists>f \<in> set fs. \<exists>v. r f = Some v \<and> sql_strip v = p)"
  by (induction fs) (auto simp: cond_holds_def split: option.splits)

text \<open>
  C4, as the code has it, for a non-empty keyword. \<open>available_fields\<close> is the column list
  the schema resolver returned. A business-number search field (\<open>business_number\<close>, its
  Korean name, \<open>ftc_business_number\<close>) is searched with hyphens and spaces stripped from
  the keyword and from the stored value: a row matches exactly when one of the field's
  columns that is among the available fields holds a value, not \<open>NULL\<close>, equal to the
  keyword after stripping both; so no row matches when none of its columns is available.
  A search field that \<open>_get_search_pattern_and_operator\<close> routes to \<open>=\<close> (\<open>cert_no\<close>,
  \<open>cert_num\<close>, \<open>declare_no\<close> and the two Korean number fields) is compared as it is:
  when the field is among the available fields, a row matches exactly when the stored
  value, not \<open>NULL\<close>, equals the keyword as typed, nothing stripped on either side; when
  the field is not among the available fields, the clause is \<open>1=1\<close> and every row matches.
\<close>

theorem exact_match_policy:
  "(kw \<noteq> [] \<and> bf \<in> set exact_match_fields \<longrightarrow>
      plan_holds eng r (where_plan cfg up st avail (Some kw) bf)
        = (\<exists>f \<in> set (business_field_aliases bf) \<inter> set avail.
             \<exists>v. r f = Some v \<and> sql_strip v = clean_keyword kw))
   \<and> (kw \<noteq> [] \<and> nf \<in> set exact_operator_fields \<and> nf \<in> set availA \<longrightarrow>
      plan_holds eng r (where_plan cfg up st availA (Some kw) nf)
        = (\<exists>v. r nf = Some v \<and> v = kw))
   \<and> (kw \<noteq> [] \<and> mf \<in> set exact_operator_fields \<and> mf \<notin> set availB \<longrightarrow>
      build_where_clause cfg up st availB (Some kw) mf = (''1=1'', [])
      \<and> plan_holds eng r (where_plan cfg up st availB (Some kw) mf))"
proof -
  have b: "plan_holds eng r (where_plan cfg up st avail (Some kw) bf)
        = (\<exists>f \<in> set (business_field_aliases bf) \<inter> set avail.
             \<exists>v. r f = Some v \<and> sql_strip v = clean_keyword kw)"
    if "kw \<noteq> []" "bf \<in> set exact_match_fields"
    using that
    by (auto simp: where_plan_def plan_holds_def Let_def stripped_eq_holds filter_empty_conv)
  have n: "plan_holds eng r (where_plan cfg up st availA (Some kw) nf)
        = (\<exists>v. r nf = Some v \<and> v = kw)"
    if "kw \<noteq> []" "nf \<in> set exact_operator_fields" "nf \<in> set availA"
    using that
    by (auto simp: where_plan_def plan_holds_def Let_def operator_not_exact existing_fields_def
        operator_target where_condition_def get_search_pattern_and_operator_def cond_holds_def
        split: option.splits)
  have m: "build_where_clause cfg up st availB (Some kw) mf = (''1=1'', [])
      \<and> plan_holds eng r (where_plan cfg up st availB (Some kw) mf)"
    if "kw \<noteq> []" "mf \<in> set exact_operator_fields" "mf \<notin> set availB"
    using that
    by (simp add: build_where_clause_def where_plan_def plan_holds_def Let_def
        operator_not_exact existing_fields_def operator_target render_plan_def)
  show ?thesis using b n m by blast
qed

theorem exact_match_policy_witness:
  "''12-3 4'' \<noteq> [] \<and> ''business_number'' \<in> set exact_match_fields
   \<and> ''cert_no'' \<in> set exact_operator_fields \<and> ''cert_no'' \<in> set [''cert_no'']
   \<and> ''cert_num'' \<in> set exact_operator_fields \<and> ''cert_num'' \<notin> set [''cert_no'']
   \<and> plan_holds reference_engine [''ftc_business_number'' \<mapsto> ''1 2-34'']
        (where_plan default_case_config True Parquet [''ftc_business_number'']
           (Some ''12-3 4'') ''business_number'')
   \<and> \<not> plan_holds reference_engine [''cert_no'' \<mapsto> ''1234'']
        (where_plan default_case_config True Parquet [''cert_no''] (Some ''12-3 4'') ''cert_no'')
   \<and> plan_holds reference_engine [''cert_no'' \<mapsto> ''1234'']
        (where_plan default_case_config True Parquet [''cert_no''] (Some ''12-3 4'') ''cert_num'')"
proof -
  have h: "''12-3 4'' \<noteq> [] \<and> ''business_number'' \<in> set exact_match_fields
     \<and> ''cert_no'' \<in> set exact_operator_fields \<and> ''cert_no'' \<in> set [''cert_no'']
     \<and> ''cert_num'' \<in> set exact_operator_fields \<and> ''cert_num'' \<notin> set [''cert_no'']"
    by (simp add: exact_match_fields_def exact_operator_fields_def)
  show ?thesis
    using h exact_match_policy [where kw = "''12-3 4''" and bf = "''business_number''"
        and nf = "''cert_no''" and avail = "[''ftc_business_number'']"
        and availA = "[''cert_no'']" and eng = reference_engine
        and mf = "''cert_num''" and availB = "[''cert_no'']"
        and cfg = default_case_config and up = True and st = Parquet
        and r = "[''ftc_business_number'' \<mapsto> ''1 2-34'']"]
      exact_match_policy [where kw = "''12-3 4''" and bf = "''business_number''"
        and nf = "''cert_no''" and avail = "[''ftc_business_number'']"
        and availA = "[''cert_no'']" and eng = reference_engine
        and mf = "''cert_num''" and availB = "[''cert_no'']"
        and cfg = default_case_config and up = True and st = Parquet
        and r = "[''cert_no'' \<mapsto> ''1234'']"]
    by (simp add: business_field_aliases_def sql_strip_def clean_keyword_def py_remove_def)
qed

theorem exact_match_policy_counterexample:
  "\<not> plan_holds reference_engine [''cert_no'' \<mapsto> ''12'']
        (where_plan default_case_config True Parquet [''cert_no''] (Some ''1-2'') ''cert_no'')
   \<and> sql_strip ''12'' = clean_keyword ''1-2''"
  by (simp add: where_plan_def plan_holds_def Let_def exact_match_fields_def existing_fields_def
      target_fields_def field_mappings_def where_condition_def
      get_search_pattern_and_operator_def exact_operator_fields_def cond_holds_def
      sql_strip_def clean_keyword_def py_remove_def ko_defs)

text \<open>
  C7, as the code has it. For the logical search fields \<open>company_name\<close>, \<open>model_name\<close> and
  \<open>product_name\<close> and a non-empty keyword, the predicate reads only columns of the
  schema. When at least one alias of the field is in the schema, it reads exactly the
  aliases that are, in the order of the alias list. When none is, it reads the column named
  like the logical field itself if the schema has one, and no column otherwise.
\<close>

theorem alias_resolution:
  assumes "kw \<noteq> []" and "sf \<in> fst ` set field_mappings"
  shows "set (plan_columns (fst (where_plan cfg up st avail (Some kw) sf))) \<subseteq> set avail
    \<and> (set (target_fields sf) \<inter> set avail \<noteq> {} \<longrightarrow>
          plan_columns (fst (where_plan cfg up st avail (Some kw) sf))
            = filter (\<lambda>f. f \<in> set avail) (target_fields sf))
    \<and> (set (target_fields sf) \<inter> set avail = {} \<longrightarrow>
          plan_columns (fst (where_plan cfg up st avail (Some kw) sf))
            = (if sf \<in> set avail then [sf] else []))"
proof -
  have c: "plan_columns (fst (where_plan cfg up st avail (Some kw) sf)) = existing_fields avail sf"
    using assms by (simp add: where_plan_columns logical_not_exact)
  show ?thesis
    unfolding c
    by (auto simp: existing_fields_def Let_def filter_empty_conv)
qed

theorem alias_resolution_witness:
  "''Acme'' \<noteq> [] \<and> ''product_name'' \<in> fst ` set field_mappings
   \<and> plan_columns (fst (where_plan default_case_config True Parquet
         [''prductNm'', ''cert_date'', ''product_name''] (Some ''Acme'') ''product_name''))
       = [''product_name'', ''prductNm'']"
proof -
  have h: "''Acme'' \<noteq> []" "''product_name'' \<in> fst ` set field_mappings"
    by (simp_all add: field_mappings_def)
  show ?thesis
    using h alias_resolution [OF h, where cfg = default_case_config and up = True
        and st = Parquet and avail = "[''prductNm'', ''cert_date'', ''product_name'']"]
    by (simp add: target_fields_def field_mappings_def ko_defs)
qed

theorem alias_resolution_counterexample:
  "plan_columns (fst (where_plan default_case_config True Parquet [''company_name'']
       (Some ''Acme'') ''company_name'')) = [''company_name'']
   \<and> ''company_name'' \<notin> set (target_fields ''company_name'')"
  by (simp add: where_plan_def Let_def plan_columns_def exact_match_fields_def
      existing_fields_def target_fields_def field_mappings_def ko_defs
      cond_column_where_condition)

text \<open>
  C10. An empty or missing keyword compiles to the constant-true clause \<open>1=1\<close>, and so does
  a non-empty keyword on a field that is not a business-number field when neither an alias
  of the field nor the field name itself is a column of the schema: every row passes the
  search predicate. A non-empty keyword on a business-number field none of whose columns
  is in the schema compiles to the constant-false clause \<open>1=0\<close>: no row passes.
\<close>

theorem unresolvable_search_predicate:
  "build_where_clause cfg up st avail None sf = (''1=1'', [])
   \<and> build_where_clause cfg up st avail (Some []) sf = (''1=1'', [])
   \<and> plan_holds eng r (where_plan cfg up st avail None sf)
   \<and> plan_holds eng r (where_plan cfg up st avail (Some []) sf)
   \<and> (kw \<noteq> [] \<and> lf \<notin> set exact_match_fields
        \<and> set (target_fields lf) \<inter> set availA = {} \<and> lf \<notin> set availA
      \<longrightarrow> build_where_clause cfg up st availA (Some kw) lf = (''1=1'', [])
          \<and> plan_holds eng r (where_plan cfg up st availA (Some kw) lf))
   \<and> (kw \<noteq> [] \<and> bf \<in> set exact_match_fields
        \<and> set (business_field_aliases bf) \<inter> set availB = {}
      \<longrightarrow> build_where_clause cfg up st availB (Some kw) bf = (''1=0'', [])
          \<and> \<not> plan_holds eng r (where_plan cfg up st availB (Some kw) bf))"
proof -
  have e: "existing_fields availA lf = []"
    if "set (target_fields lf) \<inter> set availA = {}" "lf \<notin> set availA"
    using that by (auto simp: existing_fields_def Let_def filter_empty_conv)
  have b: "filter (\<lambda>field. field \<in> set availB) (business_field_aliases bf) = []"
    if "set (business_field_aliases bf) \<inter> set availB = {}"
    using that by (auto simp: filter_empty_conv)
  show ?thesis
    by (auto simp: build_where_clause_def where_plan_def render_plan_def plan_holds_def
        Let_def e b)
qed

theorem unresolvable_search_predicate_witness:
  "''Acme'' \<noteq> [] \<and> ''company_name'' \<notin> set exact_match_fields
   \<and> set (target_fields ''company_name'') \<inter> set [''cert_date''] = {}
   \<and> ''company_name'' \<notin> set [''cert_date'']
   \<and> ''business_number'' \<in> set exact_match_fields
   \<and> set (business_field_aliases ''business_number'') \<inter> set [''cert_date''] = {}
   \<and> build_where_clause default_case_config True Parquet [''cert_date'']
        (Some ''Acme'') ''company_name'' = (''1=1'', [])
   \<and> build_where_clause default_case_config True Parquet [''cert_date'']
        (Some ''Acme'') ''business_number'' = (''1=0'', [])"
proof -
  have h: "''Acme'' \<noteq> [] \<and> ''company_name'' \<notin> set exact_match_fields
     \<and> set (target_fields ''company_name'') \<inter> set [''cert_date''] = {}
     \<and> ''company_name'' \<notin> set [''cert_date'']
     \<and> ''business_number'' \<in> set exact_match_fields
     \<and> set (business_field_aliases ''business_number'') \<inter> set [''cert_date''] = {}"
    by (simp add: exact_match_fields_def target_fields_def field_mappings_def
        business_field_aliases_def ko_defs)
  show ?thesis
    using h unresolvable_search_predicate [where kw = "''Acme''" and lf = "''company_name''"
        and bf = "''business_number''" and availA = "[''cert_date'']"
        and availB = "[''cert_date'']" and cfg = default_case_config and up = True
        and st = Parquet and eng = reference_engine and r = Map.empty
        and avail = "[]" and sf = "''''"]
    by simp
qed

section \<open>Properties of the filter predicate, the order and the pagination\<close>

lemma where_condition_text:
  "fst (where_condition cfg up ta kw f)
     = Cmp (is_field_case_insensitive cfg f \<and> f \<notin> set exact_operator_fields) ta f
         (if f \<in> set exact_operator_fields then EQ else LIKE)"
  by (simp add: where_condition_def get_search_pattern_and_operator_def Let_def)

lemma date_range_shape:
  "map_option (\<lambda>dr. (dr_start dr \<noteq> None, dr_end dr \<noteq> None)) a
     = map_option (\<lambda>dr. (dr_start dr \<noteq> None, dr_end dr \<noteq> None)) b
   \<Longrightarrow> fst (optional_part a (date_range_part avail ta))
       = fst (optional_part b (date_range_part avail ta))"
  by (cases a; cases b)
     (auto simp: optional_part_def date_range_part_def split: option.splits)

lemma certification_type_shape:
  "map_option length a = map_option length b
   \<Longrightarrow> fst (optional_part a (certification_type_part avail ta))
       = fst (optional_part b (certification_type_part avail ta))"
  by (cases a; cases b)
     (auto simp: optional_part_def certification_type_part_def map_replicate_const
        split: option.splits)

lemma company_type_shape:
  "map_option (\<lambda>cts. (''manufacturer'' \<in> set cts, ''importer'' \<in> set cts)) a
     = map_option (\<lambda>cts. (''manufacturer'' \<in> set cts, ''importer'' \<in> set cts)) b
   \<Longrightarrow> fst (optional_part a (company_type_part avail ta))
       = fst (optional_part b (company_type_part avail ta))"
  by (cases a; cases b)
     (simp_all add: optional_part_def company_type_part_def split: option.splits)

lemma exclude_keyword_text:
  "fst (exclude_keyword_part p c ta kw) = fst (exclude_keyword_part p c ta [])"
  by (simp add: exclude_keyword_part_def Let_def)

lemma exclude_keywords_text:
  "fst (exclude_keywords_part avail ta ks)
     = concat (replicate (length ks)
         (fst (exclude_keyword_part (first_present product_columns avail)
                 (first_present company_columns avail) ta [])))"
proof (induction ks)
  case Nil
  then show ?case by (simp add: exclude_keywords_part_def)
next
  case (Cons k ks)
  have "fst (exclude_keywords_part avail ta (k # ks))
      = fst (exclude_keyword_part (first_present product_columns avail)
               (first_present company_columns avail) ta k)
        @ fst (exclude_keywords_part avail ta ks)"
    by (simp add: exclude_keywords_part_def Let_def)
  also have "\<dots> = fst (exclude_keyword_part (first_present product_columns avail)
               (first_present company_columns avail) ta [])
        @ fst (exclude_keywords_part avail ta ks)"
    by (subst exclude_keyword_text) (rule refl)
  finally show ?case by (simp add: Cons.IH)
qed

lemma exclude_keywords_shape:
  "map_option length a = map_option length b
   \<Longrightarrow> fst (optional_part a (exclude_keywords_part avail ta))
       = fst (optional_part b (exclude_keywords_part avail ta))"
  by (cases a; cases b) (simp_all add: optional_part_def exclude_keywords_text)

lemma numeric_range_shape:
  "map_option (\<lambda>nr. (nr_field nr, nr_min nr \<noteq> None, nr_max nr \<noteq> None)) a
     = map_option (\<lambda>nr. (nr_field nr, nr_min nr \<noteq> None, nr_max nr \<noteq> None)) b
   \<Longrightarrow> fst (optional_part a (numeric_range_part ta))
       = fst (optional_part b (numeric_range_part ta))"
  by (cases a; cases b)
     (auto simp: optional_part_def numeric_range_part_def Let_def split: option.splits)

lemma filter_text_shape:
  assumes "filter_shape fa = filter_shape fb"
  shows "fst (build_filter_conditions avail ta (Some fa))
       = fst (build_filter_conditions avail ta (Some fb))"
proof -
  have d: "fst (optional_part (date_range fa) (date_range_part avail ta))
        = fst (optional_part (date_range fb) (date_range_part avail ta))"
    by (rule date_range_shape) (use assms in \<open>simp add: filter_shape_def\<close>)
  have c: "fst (optional_part (certification_type fa) (certification_type_part avail ta))
        = fst (optional_part (certification_type fb) (certification_type_part avail ta))"
    by (rule certification_type_shape) (use assms in \<open>simp add: filter_shape_def\<close>)
  have t: "fst (optional_part (company_type fa) (company_type_part avail ta))
        = fst (optional_part (company_type fb) (company_type_part avail ta))"
    by (rule company_type_shape) (use assms in \<open>simp add: filter_shape_def\<close>)
  have e: "fst (optional_part (exclude_keywords fa) (exclude_keywords_part avail ta))
        = fst (optional_part (exclude_keywords fb) (exclude_keywords_part avail ta))"
    by (rule exclude_keywords_shape) (use assms in \<open>simp add: filter_shape_def\<close>)
  have n: "fst (optional_part (numeric_range fa) (numeric_range_part ta))
        = fst (optional_part (numeric_range fb) (numeric_range_part ta))"
    by (rule numeric_range_shape) (use assms in \<open>simp add: filter_shape_def\<close>)
  show ?thesis
    by (simp add: build_filter_conditions_def Let_def d c t e n)
qed

lemma where_text_keyword:
  assumes "ka \<noteq> []" and "kb \<noteq> []"
  shows "fst (build_where_clause cfg up st avail (Some ka) sf)
       = fst (build_where_clause cfg up st avail (Some kb) sf)"
  using assms
  by (simp add: build_where_clause_def where_plan_def Let_def comp_def where_condition_text
      split: prod.splits)

lemma where_parameter_count:
  "length (snd (where_plan cfg up st avail kwo sf))
     = (case fst (where_plan cfg up st avail kwo sf) of
          AnyOf conditions \<Rightarrow> length conditions | _ \<Rightarrow> 0)"
  by (simp add: where_plan_def Let_def split: option.splits)

text \<open>
  C9. The claim is that no filter value reaches the text of the query. The numeric range
  breaks it: \<open>_build_filter_conditions\<close> takes the column of the comparison from
  \<open>filters['numeric_range']['field']\<close> and writes it between double quotes into the
  clause, whatever the schema holds and whatever the value contains; only the bound
  \<open>min\<close> is a parameter. With the field \<open>x" AS DOUBLE) >= 0 OR 1=1 --\<close> the clause is
  \<open>TRY_CAST("x" AS DOUBLE) >= 0 OR 1=1 --" AS DOUBLE) >= ?\<close>, and it differs from the
  clause compiled for the field \<open>price\<close>, a compilation that differs in that value only.
\<close>

theorem numeric_range_field_interpolated:
  "build_filter_conditions avail ta
     (Some \<lparr> date_range = None, certification_type = None, company_type = None,
             exclude_keywords = None,
             numeric_range = Some \<lparr> nr_field = Some f, nr_min = Some v, nr_max = None \<rparr> \<rparr>)
   = (''TRY_CAST('' @ ta @ dq @ f @ dq @ '' AS DOUBLE) >= ?'', [v])
   \<and> fst (build_filter_conditions [''price''] []
          (Some \<lparr> date_range = None, certification_type = None, company_type = None,
                  exclude_keywords = None,
                  numeric_range =
                    Some \<lparr> nr_field = Some injected_field, nr_min = Some (PInt 0),
                           nr_max = None \<rparr> \<rparr>))
       = ''TRY_CAST('' @ dq @ ''x'' @ dq @ '' AS DOUBLE) >= 0 OR 1=1 --'' @ dq
         @ '' AS DOUBLE) >= ?''
   \<and> fst (build_filter_conditions [''price''] []
          (Some \<lparr> date_range = None, certification_type = None, company_type = None,
                  exclude_keywords = None,
                  numeric_range =
                    Some \<lparr> nr_field = Some injected_field, nr_min = Some (PInt 0),
                           nr_max = None \<rparr> \<rparr>))
       \<noteq> fst (build_filter_conditions [''price''] []
          (Some \<lparr> date_range = None, certification_type = None, company_type = None,
                  exclude_keywords = None,
                  numeric_range =
                    Some \<lparr> nr_field = Some ''price'', nr_min = Some (PInt 0),
                           nr_max = None \<rparr> \<rparr>))"
  by (simp add: build_filter_conditions_def optional_part_def numeric_range_part_def
      quoted_def Let_def injected_field_def dq_def)




lemma round_up_div:
  fixes c l :: int
  assumes l: "0 < l"
  shows "(c + l - 1) div l = (if c mod l = 0 then c div l else c div l + 1)"
proof -
  have r: "0 \<le> c mod l" "c mod l < l" using l by simp_all
  have m: "l * (c div l) + c mod l = c" by (rule mult_div_mod_eq)
  show ?thesis
  proof (cases "c mod l = 0")
    case True
    have "c + l - 1 = l * (c div l) + (l - 1)" using m True by linarith
    then have "(c + l - 1) div l = c div l"
      using l by (intro int_div_pos_eq [where r = "l - 1"]) simp_all
    with True show ?thesis by simp
  next
    case False
    then have p: "0 < c mod l" using r by linarith
    have "l * (c div l + 1) = l * (c div l) + l" by (simp add: distrib_left)
    then have "c + l - 1 = l * (c div l + 1) + (c mod l - 1)" using m by linarith
    then have "(c + l - 1) div l = c div l + 1"
      using p r by (intro int_div_pos_eq [where r = "c mod l - 1"]) simp_all
    with False show ?thesis by simp
  qed
qed

lemma round_up_div_ceiling:
  fixes c l :: int
  shows "0 < l \<Longrightarrow> (c + l - 1) div l = \<lceil>real_of_int c / real_of_int l\<rceil>"
  by (simp add: ceiling_divide_eq_div round_up_div zdiv_zminus1_eq_if)

text \<open>
  C5, as the code has it. With a positive limit the number of pages is the total count
  divided by the limit, rounded up, and \<open>has_next\<close> says that the page is before the last
  one. With no limit, or a limit that is not positive, the number of pages is 1 and
  \<open>has_next\<close> is false, which is \<open>page < total_pages\<close> for every page from 1 on.
  \<open>has_prev\<close> says that the page is after the first. For 5 rows and a limit of 2: page 1
  has 3 pages in all, a next page and no previous one; page 3 has no next page and a
  previous one.
\<close>

theorem pagination_metadata:
  "total_pages (paginate limit page count)
       = (case limit of
            Some l \<Rightarrow> if 0 < l then \<lceil>real_of_int count / real_of_int l\<rceil> else 1
          | None \<Rightarrow> 1)
    \<and> has_next (paginate limit page count)
       = (case limit of
            Some l \<Rightarrow> if 0 < l then page < total_pages (paginate limit page count) else False
          | None \<Rightarrow> False)
    \<and> (1 \<le> page \<longrightarrow>
         has_next (paginate limit page count) = (page < total_pages (paginate limit page count)))
    \<and> has_prev (paginate limit page count) = (page > 1)
    \<and> total_count (paginate limit page count) = count
    \<and> paginate (Some 2) 1 5
        = \<lparr> total_count = 5, total_pages = 3, current_page = 1, items_per_page = 2,
            has_next = True, has_prev = False \<rparr>
    \<and> paginate (Some 2) 3 5
        = \<lparr> total_count = 5, total_pages = 3, current_page = 3, items_per_page = 2,
            has_next = False, has_prev = True \<rparr>"
proof -
  have e: "paginate (Some 2) 1 5
        = \<lparr> total_count = 5, total_pages = 3, current_page = 1, items_per_page = 2,
            has_next = True, has_prev = False \<rparr>"
       "paginate (Some 2) 3 5
        = \<lparr> total_count = 5, total_pages = 3, current_page = 3, items_per_page = 2,
            has_next = False, has_prev = True \<rparr>"
    by (simp_all add: paginate_def effective_limit_def Let_def)
  have g: "total_pages (paginate limit page count)
       = (case limit of
            Some l \<Rightarrow> if 0 < l then \<lceil>real_of_int count / real_of_int l\<rceil> else 1
          | None \<Rightarrow> 1)"
    by (simp add: paginate_def effective_limit_def Let_def round_up_div_ceiling
        split: option.splits)
  have n: "has_next (paginate limit page count)
       = (case limit of
            Some l \<Rightarrow> if 0 < l then page < total_pages (paginate limit page count) else False
          | None \<Rightarrow> False)"
    by (simp add: paginate_def effective_limit_def Let_def split: option.splits)
  have m: "has_next (paginate limit page count)
         = (page < total_pages (paginate limit page count))" if "1 \<le> page"
    using that
    by (simp add: paginate_def effective_limit_def Let_def split: option.splits)
  have p: "has_prev (paginate limit page count) = (page > 1)"
      "total_count (paginate limit page count) = count"
    by (simp_all add: paginate_def effective_limit_def Let_def split: option.splits)
  show ?thesis using e g n m p by simp
qed

theorem pagination_metadata_witness:
  "(1::int) \<le> 2
   \<and> total_pages (paginate (Some 2) 2 5) = 3
   \<and> has_next (paginate (Some 2) 2 5) \<and> has_prev (paginate (Some 2) 2 5)
   \<and> total_pages (paginate None 2 5) = 1 \<and> \<not> has_next (paginate None 2 5)"
proof -
  have h: "(1::int) \<le> 2" by simp
  have c: "\<lceil>5 / (2::real)\<rceil> = 3" by linarith
  show ?thesis
    using h c pagination_metadata [of "Some 2" 2 5] pagination_metadata [of None 2 5]
    by simp
qed

theorem pagination_metadata_counterexample:
  "\<not> has_next (paginate None 0 5) \<and> (0::int) < total_pages (paginate None 0 5)"
  by (simp add: paginate_def effective_limit_def)

section \<open>Properties of the size, the schema cache and the projection\<close>

text \<open>
  C3, as the code has it. A remote locator is accepted by the processor and its size is
  the fixed estimate of 100 MB. A local locator whose file is missing is refused by the
  constructor with \<open>FileNotFoundError\<close>, and \<open>_get_file_size_mb\<close> raises the same error
  when the file has gone by the time it is asked; for a file that is there it returns the
  size in bytes divided by \<open>1024 * 1024\<close>. The route layer's \<open>_inspect_data_source\<close>
  reports 100 for a remote locator and 0 for a missing local file.
\<close>

theorem file_size_introspection:
  "(is_remote ra \<longrightarrow>
      (case processor_init fs ra cat sub req of
         Inr p \<Rightarrow> get_file_size_mb fs p = Inr 100 | Inl e \<Rightarrow> False)
      \<and> snd (snd (snd (inspect_data_source fs ra))) = 100)
   \<and> (\<not> is_remote la \<and> fs la = None \<longrightarrow>
        processor_init fs la cat sub req = Inl FileNotFoundError
        \<and> snd (snd (snd (inspect_data_source fs la))) = 0)
   \<and> (\<not> is_url pa \<and> fs (file_path_str pa) = None \<longrightarrow>
        get_file_size_mb fs pa = Inl FileNotFoundError)
   \<and> (\<not> is_remote lb \<and> fs lb = Some n \<longrightarrow>
        (case processor_init fs lb cat sub req of
           Inr p \<Rightarrow> get_file_size_mb fs p = Inr (of_nat n / (1024 * 1024))
         | Inl e \<Rightarrow> False))"
  by (simp add: processor_init_def get_file_size_mb_def inspect_data_source_def Let_def)

theorem file_size_introspection_witness:
  "is_remote ''https://h/a.parquet''
   \<and> \<not> is_remote ''gone.parquet'' \<and> [''a.parquet'' \<mapsto> 2097152] ''gone.parquet'' = None
   \<and> \<not> is_url (local_processor ''gone.parquet'')
   \<and> \<not> is_remote ''a.parquet'' \<and> [''a.parquet'' \<mapsto> (2097152::nat)] ''a.parquet'' = Some 2097152
   \<and> processor_init [''a.parquet'' \<mapsto> 2097152] ''gone.parquet'' None None None
       = Inl FileNotFoundError
   \<and> get_file_size_mb [''a.parquet'' \<mapsto> 2097152] (local_processor ''gone.parquet'')
       = Inl FileNotFoundError
   \<and> get_file_size_mb [''a.parquet'' \<mapsto> 2097152] (local_processor ''a.parquet'') = Inr 2"
proof -
  have h: "is_remote ''https://h/a.parquet''
     \<and> \<not> is_remote ''gone.parquet'' \<and> [''a.parquet'' \<mapsto> 2097152] ''gone.parquet'' = None
     \<and> \<not> is_url (local_processor ''gone.parquet'')
     \<and> file_path_str (local_processor ''gone.parquet'') = ''gone.parquet''
     \<and> \<not> is_remote ''a.parquet''
     \<and> [''a.parquet'' \<mapsto> (2097152::nat)] ''a.parquet'' = Some 2097152"
    by (simp add: is_remote_def py_startswith_def local_processor_def)
  have g: "get_file_size_mb [''a.parquet'' \<mapsto> 2097152] (local_processor ''a.parquet'') = Inr 2"
    by (simp add: get_file_size_mb_def local_processor_def)
  show ?thesis
    using h g file_size_introspection [where ra = "''https://h/a.parquet''"
        and la = "''gone.parquet''" and lb = "''a.parquet''" and n = 2097152
        and fs = "[''a.parquet'' \<mapsto> 2097152]" and pa = "local_processor ''gone.parquet''"
        and cat = None and sub = None and req = None]
    by simp
qed

theorem file_size_introspection_counterexample:
  "processor_init Map.empty ''gone.parquet'' None None None = Inl FileNotFoundError
   \<and> get_file_size_mb Map.empty (local_processor ''gone.parquet'') = Inl FileNotFoundError"
  by (simp add: processor_init_def get_file_size_mb_def is_remote_def py_startswith_def
      local_processor_def)

lemma blob_mapping_none:
  "fst (try_duckdb_blob_schema_mapping k f s) = None
   \<Longrightarrow> try_duckdb_blob_schema_mapping k f s = (None, s)"
  by (auto simp: try_duckdb_blob_schema_mapping_def split: option.splits prod.splits if_splits)

lemma cached_schema_none:
  "fst (cached_schema p s) = None \<Longrightarrow> cached_schema p s = (None, s)"
  by (auto simp: cached_schema_def Let_def blob_mapping_none split: option.splits if_splits)

lemma cached_schema_dynamic:
  "is_dynamic_schema_target p \<Longrightarrow> cached_schema p s = (None, s)"
  by (simp add: cached_schema_def is_dynamic_schema_target_def)

lemma cache_schema_dynamic:
  "is_dynamic_schema_target p \<Longrightarrow> cache_schema p columns s = s"
  by (simp add: cache_schema_def is_dynamic_schema_target_def)

lemma cache_schema_written:
  assumes "\<not> is_dynamic_schema_target p" and "file_path_str p \<noteq> []"
  shows "cache_by_url (cache_schema p columns s) (file_path_str p) = Some columns"
    and "introspections (cache_schema p columns s) = introspections s"
  using assms
  by (auto simp: cache_schema_def is_dynamic_schema_target_def Let_def split: option.splits)

lemma cached_schema_hit:
  assumes "\<not> is_dynamic_schema_target p" and "cache_by_url s (file_path_str p) = Some c"
  shows "cached_schema p s = (Some c, s)"
  using assms by (simp add: cached_schema_def is_dynamic_schema_target_def)

lemma get_available_fields_hit:
  assumes "\<not> is_dynamic_schema_target p" and "cache_by_url s (file_path_str p) = Some c"
  shows "get_available_fields w p s = (c, s)"
  using assms by (simp add: get_available_fields_def cached_schema_hit)

lemma get_available_fields_miss:
  assumes "fst (cached_schema p s) = None"
  shows "get_available_fields w p s = introspect w p s"
  using cached_schema_none [OF assms] by (simp add: get_available_fields_def)

lemma introspect_failure:
  assumes "probe w p = Some (Inl e)"
  shows "introspect w p s = ([], s\<lparr>introspections := Suc (introspections s)\<rparr>)"
  using assms by (simp add: introspect_def)

lemma introspect_success:
  assumes "probe w p = Some (Inr columns)"
  shows "introspect w p s
       = (columns, cache_schema p columns (s\<lparr>introspections := Suc (introspections s)\<rparr>))"
  using assms by (simp add: introspect_def)

lemma first_call_success:
  assumes "fst (cached_schema p s) = None" and "probe w p = Some (Inr columns)"
  shows "get_available_fields w p s
       = (columns, cache_schema p columns (s\<lparr>introspections := Suc (introspections s)\<rparr>))"
  using assms by (simp add: get_available_fields_miss introspect_success)

lemma two_calls_success:
  assumes nd: "\<not> is_dynamic_schema_target p" and k: "file_path_str p \<noteq> []"
    and cold: "fst (cached_schema p s) = None" and ok: "probe w p = Some (Inr columns)"
  shows "fst (get_available_fields w p s) = columns"
    and "fst (get_available_fields wb p (snd (get_available_fields w p s))) = columns"
    and "introspections (snd (get_available_fields wb p (snd (get_available_fields w p s))))
         = introspections s + 1"
proof -
  let ?s1 = "cache_schema p columns (s\<lparr>introspections := Suc (introspections s)\<rparr>)"
  have a: "get_available_fields w p s = (columns, ?s1)"
    using cold ok by (rule first_call_success)
  have b: "get_available_fields wb p ?s1 = (columns, ?s1)"
    using nd cache_schema_written(1) [OF nd k] by (rule get_available_fields_hit)
  show "fst (get_available_fields w p s) = columns" by (simp add: a)
  show "fst (get_available_fields wb p (snd (get_available_fields w p s))) = columns"
    by (simp add: a b)
  show "introspections (snd (get_available_fields wb p (snd (get_available_fields w p s))))
         = introspections s + 1"
    by (simp add: a b cache_schema_written(2) [OF nd k])
qed

lemma two_calls_failure:
  assumes cold: "fst (cached_schema p s) = None" and bad: "probe w p = Some (Inl e)"
  shows "introspections (snd (get_available_fields w p (snd (get_available_fields w p s))))
         = introspections s + 2"
proof -
  let ?s1 = "s\<lparr>introspections := Suc (introspections s)\<rparr>"
  have a: "get_available_fields w p s = ([], ?s1)"
    using cold bad by (simp add: get_available_fields_miss introspect_failure)
  have "cached_schema p ?s1 = (None, ?s1)"
    using cached_schema_none [OF cold]
    by (auto simp: cached_schema_def try_duckdb_blob_schema_mapping_def Let_def
        split: option.splits if_splits prod.splits)
  then have "get_available_fields w p ?s1 = introspect w p ?s1"
    by (simp add: get_available_fields_def)
  then show ?thesis using a bad by (simp add: introspect_failure)
qed

lemma volatile_call:
  assumes "is_dynamic_schema_target p"
  shows "cache_by_url (snd (get_available_fields w p s)) = cache_by_url s"
    and "cache_by_filename (snd (get_available_fields w p s)) = cache_by_filename s"
    and "fst (get_available_fields w p s) = fst (get_available_fields w p sb)"
    and "probe w p \<noteq> None
         \<Longrightarrow> introspections (snd (get_available_fields w p s)) = introspections s + 1"
  using assms
  by (auto simp: get_available_fields_def cached_schema_dynamic introspect_def
      cache_schema_dynamic Let_def split: option.splits sum.splits)

lemma opens_tabular_probe:
  "opens_tabular w p \<Longrightarrow> probe w p \<noteq> None"
  by (auto simp: opens_tabular_def probe_def split: if_splits option.splits)

lemma get_available_fields_filename_hit:
  assumes "\<not> is_dynamic_schema_target p" and "cache_by_url s (file_path_str p) = None"
    and "extract_file_name (file_path_str p) = Some fn" and "fn \<noteq> []"
    and "cache_by_filename s fn = Some c"
  shows "get_available_fields w p s = (c, s)"
  using assms
  by (simp add: get_available_fields_def cached_schema_def is_dynamic_schema_target_def)




text \<open>
  C6, as the code has it. Take a locator that is not of a volatile-schema dataset and is
  not empty. When no cache entry answers the first call (neither key, nor the alias lookup
  for DuckDB blob locators), the source opened is a Parquet or DuckDB relation and reading
  its columns succeeds, the first call performs one introspection and stores the columns,
  and the second call returns them from the cache without another: one introspection for
  the two calls. A call that finds the locator in the cache by locator, or else its file
  name in the cache by file name, returns the cached columns, performs no introspection
  and leaves the state as it is. When reading the columns raises, nothing is cached and
  the next call introspects again: two introspections for two calls. For a locator of a
  volatile-schema dataset a call leaves both caches as they are, returns what it would
  return with any other cache contents, and performs one introspection whenever the source
  opened is a Parquet or DuckDB relation.
\<close>

theorem schema_cache_correctness:
  "(\<not> is_dynamic_schema_target p \<and> file_path_str p \<noteq> []
      \<and> fst (cached_schema p s) = None \<and> opens_tabular w p
      \<and> probe w p = Some (Inr columns) \<longrightarrow>
      fst (get_available_fields w p s) = columns
      \<and> fst (get_available_fields wn p (snd (get_available_fields w p s))) = columns
      \<and> introspections (snd (get_available_fields w p s)) = introspections s + 1
      \<and> introspections (snd (get_available_fields wn p (snd (get_available_fields w p s))))
          = introspections s + 1)
   \<and> (\<not> is_dynamic_schema_target pa \<and> cache_by_url sa (file_path_str pa) = Some ca \<longrightarrow>
        get_available_fields wa pa sa = (ca, sa))
   \<and> (\<not> is_dynamic_schema_target pb \<and> cache_by_url sb (file_path_str pb) = None
        \<and> extract_file_name (file_path_str pb) = Some fn \<and> fn \<noteq> []
        \<and> cache_by_filename sb fn = Some cb \<longrightarrow>
        get_available_fields wb pb sb = (cb, sb))
   \<and> (fst (cached_schema pc sc) = None \<and> opens_tabular wc pc
        \<and> probe wc pc = Some (Inl e) \<longrightarrow>
        fst (get_available_fields wc pc sc) = []
        \<and> introspections
            (snd (get_available_fields wc pc (snd (get_available_fields wc pc sc))))
           = introspections sc + 2)
   \<and> (is_dynamic_schema_target pd \<longrightarrow>
        cache_by_url (snd (get_available_fields wd pd sd)) = cache_by_url sd
        \<and> cache_by_filename (snd (get_available_fields wd pd sd)) = cache_by_filename sd
        \<and> fst (get_available_fields wd pd sd) = fst (get_available_fields wd pd se)
        \<and> (opens_tabular wd pd \<longrightarrow>
             introspections (snd (get_available_fields wd pd sd)) = introspections sd + 1))"
proof -
  have a: "fst (get_available_fields w p s) = columns
      \<and> fst (get_available_fields wn p (snd (get_available_fields w p s))) = columns
      \<and> introspections (snd (get_available_fields w p s)) = introspections s + 1
      \<and> introspections (snd (get_available_fields wn p (snd (get_available_fields w p s))))
          = introspections s + 1"
    if h: "\<not> is_dynamic_schema_target p" "file_path_str p \<noteq> []"
      "fst (cached_schema p s) = None" "probe w p = Some (Inr columns)"
    using two_calls_success [OF h] first_call_success [OF h(3) h(4)]
      cache_schema_written(2) [OF h(1) h(2)]
    by simp
  have c: "fst (get_available_fields wc pc sc) = []
        \<and> introspections
            (snd (get_available_fields wc pc (snd (get_available_fields wc pc sc))))
           = introspections sc + 2"
    if h: "fst (cached_schema pc sc) = None" "probe wc pc = Some (Inl e)"
    using two_calls_failure [OF h] h
    by (simp add: get_available_fields_miss introspect_failure)
  have d: "cache_by_url (snd (get_available_fields wd pd sd)) = cache_by_url sd
        \<and> cache_by_filename (snd (get_available_fields wd pd sd)) = cache_by_filename sd
        \<and> fst (get_available_fields wd pd sd) = fst (get_available_fields wd pd se)
        \<and> (opens_tabular wd pd \<longrightarrow>
             introspections (snd (get_available_fields wd pd sd)) = introspections sd + 1)"
    if h: "is_dynamic_schema_target pd"
    using volatile_call [OF h] opens_tabular_probe [of wd pd] by blast
  show ?thesis
    using a c d get_available_fields_hit [of pa sa ca wa]
      get_available_fields_filename_hit [of pb sb fn cb wb]
    by blast
qed

lemma example_file_names:
  "extract_file_name ''a.parquet'' = Some ''a.parquet''"
  "extract_file_name ''d/a.parquet'' = Some ''a.parquet''"
  "extract_file_name ''3_efficiency_flattened.parquet'' = Some ''3_efficiency_flattened.parquet''"
  by (simp_all add: extract_file_name_def is_remote_def py_startswith_def path_name_def)

lemma example_not_dynamic:
  "\<not> is_dynamic_schema_target (local_processor ''a.parquet'')"
  "\<not> is_dynamic_schema_target (local_processor ''d/a.parquet'')"
  by (simp_all add: is_dynamic_schema_target_def local_processor_def example_file_names
      should_use_dynamic_schema_def dynamic_targets_def py_startswith_def)

lemma example_dynamic:
  "is_dynamic_schema_target (local_processor ''3_efficiency_flattened.parquet'')"
  by (simp add: is_dynamic_schema_target_def local_processor_def example_file_names
      should_use_dynamic_schema_def dynamic_targets_def)

lemma example_cold:
  "fst (cached_schema (local_processor ''a.parquet'') empty_state) = None"
  by (simp add: cached_schema_def local_processor_def empty_state_def Let_def
      example_file_names try_duckdb_blob_schema_mapping_def py_endswith_def)

lemma example_probes:
  "probe sound_world (local_processor path) = Some (Inr [''company_name'', ''cert_date''])"
  "probe broken_world (local_processor path) = Some (Inl EngineError)"
  "opens_tabular sound_world (local_processor path)"
  "opens_tabular broken_world (local_processor path)"
  by (simp_all add: probe_def opens_tabular_def sound_world_def broken_world_def
      local_processor_def)

theorem schema_cache_correctness_witness:
  "\<not> is_dynamic_schema_target (local_processor ''a.parquet'')
   \<and> file_path_str (local_processor ''a.parquet'') \<noteq> []
   \<and> fst (cached_schema (local_processor ''a.parquet'') empty_state) = None
   \<and> opens_tabular sound_world (local_processor ''a.parquet'')
   \<and> probe sound_world (local_processor ''a.parquet'')
       = Some (Inr [''company_name'', ''cert_date''])
   \<and> cache_by_url warm_state (file_path_str (local_processor ''a.parquet''))
       = Some [''id'', ''maker'']
   \<and> \<not> is_dynamic_schema_target (local_processor ''d/a.parquet'')
   \<and> cache_by_url warm_state (file_path_str (local_processor ''d/a.parquet'')) = None
   \<and> extract_file_name (file_path_str (local_processor ''d/a.parquet'')) = Some ''a.parquet''
   \<and> cache_by_filename warm_state ''a.parquet'' = Some [''id'', ''maker'']
   \<and> opens_tabular broken_world (local_processor ''a.parquet'')
   \<and> probe broken_world (local_processor ''a.parquet'') = Some (Inl EngineError)
   \<and> is_dynamic_schema_target (local_processor ''3_efficiency_flattened.parquet'')
   \<and> opens_tabular sound_world (local_processor ''3_efficiency_flattened.parquet'')
   \<and> introspections
        (snd (get_available_fields broken_world (local_processor ''a.parquet'')
           (snd (get_available_fields sound_world (local_processor ''a.parquet'')
              empty_state)))) = 1
   \<and> get_available_fields broken_world (local_processor ''a.parquet'') warm_state
       = ([''id'', ''maker''], warm_state)
   \<and> get_available_fields broken_world (local_processor ''d/a.parquet'') warm_state
       = ([''id'', ''maker''], warm_state)
   \<and> introspections
        (snd (get_available_fields broken_world (local_processor ''a.parquet'')
           (snd (get_available_fields broken_world (local_processor ''a.parquet'')
              empty_state)))) = 2
   \<and> cache_by_url
        (snd (get_available_fields sound_world
           (local_processor ''3_efficiency_flattened.parquet'') warm_state))
       = cache_by_url warm_state
   \<and> introspections
        (snd (get_available_fields sound_world
           (local_processor ''3_efficiency_flattened.parquet'') warm_state)) = 1"
proof -
  have h: "\<not> is_dynamic_schema_target (local_processor ''a.parquet'')
     \<and> file_path_str (local_processor ''a.parquet'') \<noteq> []
     \<and> fst (cached_schema (local_processor ''a.parquet'') empty_state) = None
     \<and> opens_tabular sound_world (local_processor ''a.parquet'')
     \<and> probe sound_world (local_processor ''a.parquet'')
         = Some (Inr [''company_name'', ''cert_date''])
     \<and> cache_by_url warm_state (file_path_str (local_processor ''a.parquet''))
         = Some [''id'', ''maker'']
     \<and> \<not> is_dynamic_schema_target (local_processor ''d/a.parquet'')
     \<and> cache_by_url warm_state (file_path_str (local_processor ''d/a.parquet'')) = None
     \<and> extract_file_name (file_path_str (local_processor ''d/a.parquet''))
         = Some ''a.parquet''
     \<and> ''a.parquet'' \<noteq> []
     \<and> cache_by_filename warm_state ''a.parquet'' = Some [''id'', ''maker'']
     \<and> opens_tabular broken_world (local_processor ''a.parquet'')
     \<and> probe broken_world (local_processor ''a.parquet'') = Some (Inl EngineError)
     \<and> is_dynamic_schema_target (local_processor ''3_efficiency_flattened.parquet'')
     \<and> opens_tabular sound_world (local_processor ''3_efficiency_flattened.parquet'')
     \<and> introspections empty_state = 0 \<and> introspections warm_state = 0"
    using example_not_dynamic example_dynamic example_cold example_probes
    by (simp add: local_processor_def warm_state_def empty_state_def example_file_names)
  show ?thesis
    using h schema_cache_correctness [where p = "local_processor ''a.parquet''"
        and s = empty_state and w = sound_world and wn = broken_world
        and columns = "[''company_name'', ''cert_date'']"
        and pa = "local_processor ''a.parquet''" and sa = warm_state
        and ca = "[''id'', ''maker'']" and wa = broken_world
        and pb = "local_processor ''d/a.parquet''" and sb = warm_state
        and fn = "''a.parquet''" and cb = "[''id'', ''maker'']" and wb = broken_world
        and pc = "local_processor ''a.parquet''" and sc = empty_state and wc = broken_world
        and e = EngineError
        and pd = "local_processor ''3_efficiency_flattened.parquet''" and sd = warm_state
        and se = empty_state and wd = sound_world]
    by simp
qed

theorem schema_cache_correctness_counterexample:
  "\<not> is_dynamic_schema_target (local_processor ''a.parquet'')
   \<and> introspections
        (snd (get_available_fields broken_world (local_processor ''a.parquet'')
           (snd (get_available_fields broken_world (local_processor ''a.parquet'')
              empty_state)))) = 2"
  using example_not_dynamic(1)
    two_calls_failure [OF example_cold example_probes(2) [of "''a.parquet''"]]
  by (simp add: empty_state_def)

section \<open>Properties of the executor\<close>

lemma take_record_streaming:
  "streaming_mode cfg \<Longrightarrow> results (take_record cfg rec s) = results s"
  by (simp add: take_record_def Let_def)

lemma process_batch_streaming:
  "streaming_mode cfg \<Longrightarrow> results (process_batch cfg rows s) = results s"
proof (induction rows arbitrary: s)
  case Nil
  then show ?case by simp
next
  case (Cons row rows)
  then show ?case
    by (simp add: Let_def take_record_streaming split: option.splits)
qed

lemma flush_chunk_results:
  "results (flush_chunk cfg s) = results s"
  by (simp add: flush_chunk_def)

lemma fetch_loop_streaming:
  "streaming_mode cfg \<Longrightarrow> results (fetch_loop cfg cursor s) = results s"
proof (induction cfg cursor s rule: fetch_loop.induct)
  case (1 cfg cursor s)
  show ?case
  proof (cases "take (batch_fetch_size cfg) cursor = []")
    case True
    then show ?thesis by (subst fetch_loop.simps) simp
  next
    case False
    let ?s1 = "flush_chunk cfg (process_batch cfg (take (batch_fetch_size cfg) cursor) s)"
    have r: "results ?s1 = results s"
      using "1.prems" by (simp add: flush_chunk_results process_batch_streaming)
    show ?thesis
    proof (cases "limit_reached cfg ?s1")
      case True
      with False r show ?thesis by (subst fetch_loop.simps) (simp add: Let_def)
    next
      case lim: False
      have "results (fetch_loop cfg (drop (batch_fetch_size cfg) cursor) ?s1) = results ?s1"
        using "1.IH" [OF refl False refl lim "1.prems"] .
      with False lim r show ?thesis by (subst fetch_loop.simps) (simp add: Let_def)
    qed
  qed
qed

lemma streaming_count:
  "out_total_count (execute_query False True chunk limit up st names cursor) = VInt 0"
  by (simp add: execute_query_def Let_def flush_chunk_results fetch_loop_streaming
      del: fetch_loop.simps)

lemma streamed_two_rows:
  "execute_query False True 1000 None True Parquet [''company_name'', ''total_count''] two_rows
   = \<lparr> out_results = [], out_total_count = VInt 0, out_processed_records = 2,
       out_sink_calls =
         [([[(''company_name'', VStr ''Acme'')], [(''company_name'', VStr ''Zeta'')]], 2)] \<rparr>"
  by code_simp

lemma collected_two_rows:
  "execute_query True False 1000 None True Parquet [''company_name'', ''total_count''] two_rows
   = \<lparr> out_results = [[(''company_name'', VStr ''Acme'')], [(''company_name'', VStr ''Zeta'')]],
       out_total_count = VInt 2, out_processed_records = 2, out_sink_calls = [] \<rparr>"
  by code_simp

text \<open>
  C1. The claim is that a streamed export reports as its total count the number of rows
  handed to the sink, the same count a collecting run without limit reports. The code
  does not: in streaming mode the rows go to the chunk buffer and \<open>results\<close> stays empty,
  and the total count is taken from the window column only \<open>if results:\<close>, so a streamed
  run reports 0 whatever the cursor holds. On a query with two matching rows, read from a
  Parquet file with a chunk size of 1000 and no limit, the sink receives one chunk of two
  rows with a running count of 2 and the reported total is 0; the collecting run over the
  same rows reports 2.
\<close>

theorem streaming_total_count_is_zero:
  "out_total_count (execute_query False True chunk limit up st names cursor) = VInt 0
   \<and> execute_query False True 1000 None True Parquet [''company_name'', ''total_count''] two_rows
       = \<lparr> out_results = [], out_total_count = VInt 0, out_processed_records = 2,
           out_sink_calls =
             [([[(''company_name'', VStr ''Acme'')], [(''company_name'', VStr ''Zeta'')]], 2)] \<rparr>
   \<and> out_total_count
         (execute_query True False 1000 None True Parquet [''company_name'', ''total_count'']
            two_rows) = VInt 2"
  using streaming_count [of chunk limit up st names cursor] streamed_two_rows
    collected_two_rows
  by simp

end
